theory Spec2Isabelle
  imports Complex_Main
begin

section \<open>SkillBridge: the application and review lifecycle\<close>

text \<open>
  A shallow embedding of the request handlers under \<^verbatim>\<open>src/app/api\<close> that create,
  decide and withdraw applications, create and delete reviews, and create, update and
  delete posts, together with the Mongoose schemas they write through.

  Conventions of the embedding.
  \<^item> An ObjectId is a natural number; \<^verbatim>\<open>toString()\<close> is injective, so comparing the
    strings is comparing the numbers. Route parameters and body fields that name a
    document range over well-formed ObjectIds.
  \<^item> A collection is the list of its documents in insertion order. \<^verbatim>\<open>_id\<close> is the
    primary key of a collection, so the by-id operations act on the documents that carry
    the id.
  \<^item> A handler takes the session that \<^verbatim>\<open>getSession\<close> extracted (\<open>None\<close> when there
    is none), its parsed input and the database, and returns the HTTP response with the
    database it leaves behind.
  \<^item> An exception of a Mongoose call is a value \<open>Inl e\<close>; the handler's
    \<^verbatim>\<open>catch\<close> block is the case distinction on it.
  \<^item> \<^verbatim>\<open>Number\<close> values that are averages are exact rationals.
  \<^item> A string is the list of its UTF-16 code units, each below 256, so \<open>length\<close> is
    \<^verbatim>\<open>.length\<close>.
  \<^item> \<^verbatim>\<open>populate\<close> and \<^verbatim>\<open>select\<close> only shape the document a response carries;
    they are taken to succeed and are not part of the payload.
  \<^item> Fields of posts and users that no handler modelled here reads (description,
    category, budget, skills, location, milestones, email, password, bio) are left out.
\<close>

subsection \<open>Documents\<close>

type_synonym oid = nat

datatype post_status = OPEN | CLOSED

datatype app_status = PENDING | ACCEPTED | REJECTED

datatype notification_type = NEW_APPLICATION | STATUS_CHANGED | NEW_REVIEW | NEW_POST_MATCH

record post =
  p_id :: oid
  p_userId :: oid
  p_title :: string
  p_status :: post_status

record application =
  a_id :: oid
  a_postId :: oid
  a_providerId :: oid
  a_message :: string
  a_status :: app_status

record review =
  r_id :: oid
  r_seekerId :: oid
  r_providerId :: oid
  r_applicationId :: oid
  r_rating :: int
  r_comment :: "string option"

record user =
  u_id :: oid
  u_name :: string
  u_role :: string
  averageRating :: rat
  reviewCount :: nat

record notification =
  n_userId :: oid
  n_type :: notification_type
  n_title :: string
  n_message :: string
  n_link :: string
  n_read :: bool

record db =
  posts :: "post list"
  applications :: "application list"
  reviews :: "review list"
  users :: "user list"
  notifications :: "notification list"
  next_oid :: oid

definition empty_db :: db where
  "empty_db = \<lparr>posts = [], applications = [], reviews = [], users = [],
               notifications = [], next_oid = 0\<rparr>"

subsection \<open>Sessions and responses\<close>

record session =
  userId :: oid
  role :: string

text \<open>
  The JSON bodies: \<^verbatim>\<open>{success: false, error}\<close>, the same with the message zod chose,
  \<^verbatim>\<open>{success: false, message}\<close> (the body of the 401 response only),
  \<^verbatim>\<open>{success: true, message}\<close>, and the successes that carry a document.
\<close>

datatype payload =
    Error string
  | ZodIssue
  | FailureMessage string
  | Message string
  | ApplicationDoc "application option"
  | ReviewDoc review
  | PostDoc "post option"
  | UserDoc user

record response =
  status :: nat
  payload :: payload

definition json :: "nat \<Rightarrow> payload \<Rightarrow> response" where
  "json st p = \<lparr>status = st, payload = p\<rparr>"

definition unauthorizedResponse :: response where
  "unauthorizedResponse = json 401 (FailureMessage ''Unauthorized access'')"

definition internalServerError :: response where
  "internalServerError = json 500 (Error ''Internal Server Error'')"

subsection \<open>Mongoose: queries\<close>

text \<open>
  What a Mongoose call throws: the duplicate-key error of a unique index (the one with
  \<^verbatim>\<open>code === 11000\<close>) or a schema validation error.
\<close>

datatype mongo_error = DuplicateKey | ValidationError

text \<open>
  \<^verbatim>\<open>trim: true\<close> of a schema is \<^verbatim>\<open>String.prototype.trim\<close>. A character of the
  model is a UTF-16 code unit below 256; the whitespace and line terminators that
  \<^verbatim>\<open>trim\<close> strips in this range are tab, line feed, vertical tab, form feed,
  carriage return, blank and the no-break space U+00A0.
\<close>

definition is_space :: "char \<Rightarrow> bool" where
  "is_space c \<longleftrightarrow>
     c = CHR 0x09 \<or> c = CHR 0x0A \<or> c = CHR 0x0B \<or> c = CHR 0x0C \<or> c = CHR 0x0D
     \<or> c = CHR 0x20 \<or> c = CHR 0xA0"

definition trim :: "string \<Rightarrow> string" where
  "trim s = rev (dropWhile is_space (rev (dropWhile is_space s)))"

definition ServicePost_findById :: "oid \<Rightarrow> db \<Rightarrow> post option" where
  "ServicePost_findById i s = find (\<lambda>p. p_id p = i) (posts s)"

definition Application_findById :: "oid \<Rightarrow> db \<Rightarrow> application option" where
  "Application_findById i s = find (\<lambda>a. a_id a = i) (applications s)"

definition Application_findOne :: "oid \<Rightarrow> oid \<Rightarrow> db \<Rightarrow> application option" where
  "Application_findOne pid prov s =
     find (\<lambda>a. a_postId a = pid \<and> a_providerId a = prov) (applications s)"

definition Review_findById :: "oid \<Rightarrow> db \<Rightarrow> review option" where
  "Review_findById i s = find (\<lambda>r. r_id r = i) (reviews s)"

definition Review_findOne :: "oid \<Rightarrow> db \<Rightarrow> review option" where
  "Review_findOne aid s = find (\<lambda>r. r_applicationId r = aid) (reviews s)"

definition User_findById :: "oid \<Rightarrow> db \<Rightarrow> user option" where
  "User_findById i s = find (\<lambda>u. u_id u = i) (users s)"

text \<open>
  The pipeline \<^verbatim>\<open>[{$match: {providerId}}, {$group: {_id: null, avg: {$avg: '$rating'},
  count: {$sum: 1}}}]\<close>: no group when nothing matches, else the one group.
\<close>

definition Review_aggregate :: "oid \<Rightarrow> db \<Rightarrow> (rat \<times> nat) option" where
  "Review_aggregate prov s =
     (let rs = filter (\<lambda>r. r_providerId r = prov) (reviews s)
      in if rs = [] then None
         else Some (of_int (sum_list (map r_rating rs)) / of_nat (length rs), length rs))"

definition Math_round :: "rat \<Rightarrow> int" where
  "Math_round x = \<lfloor>x + 1 / 2\<rfloor>"

subsection \<open>Mongoose: writes\<close>

text \<open>
  \<^verbatim>\<open>Application.create\<close>: the schema trims the message and validates its length, then
  the insert is checked against the unique index on \<^verbatim>\<open>{postId, providerId}\<close>; the
  status defaults to \<^verbatim>\<open>PENDING\<close>.
\<close>

definition Application_create ::
  "oid \<Rightarrow> oid \<Rightarrow> string \<Rightarrow> db \<Rightarrow> mongo_error + (application \<times> db)" where
  "Application_create pid prov msg s =
     (let m = trim msg
      in if length m < 10 \<or> 1000 < length m then Inl ValidationError
         else if list_ex (\<lambda>a. a_postId a = pid \<and> a_providerId a = prov) (applications s)
         then Inl DuplicateKey
         else
           let a = \<lparr>a_id = next_oid s, a_postId = pid, a_providerId = prov,
                    a_message = m, a_status = PENDING\<rparr>
           in Inr (a, s\<lparr>applications := applications s @ [a], next_oid := Suc (next_oid s)\<rparr>))"

definition Application_findByIdAndUpdate :: "oid \<Rightarrow> app_status \<Rightarrow> db \<Rightarrow> db" where
  "Application_findByIdAndUpdate i st s =
     s\<lparr>applications := map (\<lambda>a. if a_id a = i then a\<lparr>a_status := st\<rparr> else a) (applications s)\<rparr>"

definition Application_findByIdAndDelete :: "oid \<Rightarrow> db \<Rightarrow> db" where
  "Application_findByIdAndDelete i s =
     s\<lparr>applications := filter (\<lambda>a. a_id a \<noteq> i) (applications s)\<rparr>"

definition Application_deleteMany :: "oid \<Rightarrow> db \<Rightarrow> db" where
  "Application_deleteMany pid s =
     s\<lparr>applications := filter (\<lambda>a. a_postId a \<noteq> pid) (applications s)\<rparr>"

text \<open>
  \<^verbatim>\<open>ServicePost.create\<close>: the title is trimmed and must keep 5 to 100 characters; the
  status defaults to \<^verbatim>\<open>OPEN\<close>.
\<close>

definition ServicePost_create :: "oid \<Rightarrow> string \<Rightarrow> db \<Rightarrow> mongo_error + (post \<times> db)" where
  "ServicePost_create uid title s =
     (let t = trim title
      in if length t < 5 \<or> 100 < length t then Inl ValidationError
         else
           let p = \<lparr>p_id = next_oid s, p_userId = uid, p_title = t, p_status = OPEN\<rparr>
           in Inr (p, s\<lparr>posts := posts s @ [p], next_oid := Suc (next_oid s)\<rparr>))"

definition ServicePost_findByIdAndUpdate ::
  "oid \<Rightarrow> post_status option \<Rightarrow> string option \<Rightarrow> db \<Rightarrow> db" where
  "ServicePost_findByIdAndUpdate i st title s =
     s\<lparr>posts := map (\<lambda>p. if p_id p = i
                          then p\<lparr>p_status := (case st of None \<Rightarrow> p_status p | Some v \<Rightarrow> v),
                                 p_title := (case title of None \<Rightarrow> p_title p | Some t \<Rightarrow> t)\<rparr>
                          else p) (posts s)\<rparr>"

definition ServicePost_findByIdAndDelete :: "oid \<Rightarrow> db \<Rightarrow> db" where
  "ServicePost_findByIdAndDelete i s = s\<lparr>posts := filter (\<lambda>p. p_id p \<noteq> i) (posts s)\<rparr>"

text \<open>
  \<^verbatim>\<open>Review.create\<close>: the rating must lie in 1..5, the trimmed comment may have at most
  500 characters, and \<^verbatim>\<open>applicationId\<close> is a unique index.
\<close>

definition Review_create ::
  "oid \<Rightarrow> oid \<Rightarrow> oid \<Rightarrow> int \<Rightarrow> string option \<Rightarrow> db \<Rightarrow> mongo_error + (review \<times> db)" where
  "Review_create seeker prov aid rating comment s =
     (let c = map_option trim comment
      in if rating < 1 \<or> 5 < rating \<or> (case c of None \<Rightarrow> False | Some t \<Rightarrow> 500 < length t)
         then Inl ValidationError
         else if list_ex (\<lambda>r. r_applicationId r = aid) (reviews s) then Inl DuplicateKey
         else
           let r = \<lparr>r_id = next_oid s, r_seekerId = seeker, r_providerId = prov,
                    r_applicationId = aid, r_rating = rating, r_comment = c\<rparr>
           in Inr (r, s\<lparr>reviews := reviews s @ [r], next_oid := Suc (next_oid s)\<rparr>))"

definition Review_findByIdAndDelete :: "oid \<Rightarrow> db \<Rightarrow> db" where
  "Review_findByIdAndDelete i s = s\<lparr>reviews := filter (\<lambda>r. r_id r \<noteq> i) (reviews s)\<rparr>"

definition User_findByIdAndUpdate :: "oid \<Rightarrow> rat \<Rightarrow> nat \<Rightarrow> db \<Rightarrow> db" where
  "User_findByIdAndUpdate i avg cnt s =
     s\<lparr>users := map (\<lambda>u. if u_id u = i then u\<lparr>averageRating := avg, reviewCount := cnt\<rparr> else u)
                     (users s)\<rparr>"

text \<open>
  \<^verbatim>\<open>User.create\<close> as the registration route calls it: the name may have at most 50
  characters; both rating fields default to 0.
\<close>

definition User_create :: "string \<Rightarrow> string \<Rightarrow> db \<Rightarrow> mongo_error + (user \<times> db)" where
  "User_create name r s =
     (if length name < 2 \<or> 50 < length name \<or> (r \<noteq> ''SEEKER'' \<and> r \<noteq> ''PROVIDER'')
      then Inl ValidationError
      else
        let u = \<lparr>u_id = next_oid s, u_name = name, u_role = r, averageRating = 0, reviewCount = 0\<rparr>
        in Inr (u, s\<lparr>users := users s @ [u], next_oid := Suc (next_oid s)\<rparr>))"

subsection \<open>The notification sink\<close>

text \<open>
  \<^verbatim>\<open>createNotification\<close> wraps \<^verbatim>\<open>Notification.create\<close> in a try/catch that logs and
  returns. \<open>sink_ok = False\<close> is the write throwing (the store being unavailable); the
  schema's length limits make it throw too.
\<close>

definition createNotification :: "bool \<Rightarrow> notification \<Rightarrow> db \<Rightarrow> db" where
  "createNotification sink_ok n s =
     (if sink_ok \<and> length (n_title n) \<le> 100 \<and> length (n_message n) \<le> 300
         \<and> length (n_link n) \<le> 200
      then s\<lparr>notifications := notifications s @ [n]\<rparr>
      else s)"

subsection \<open>Request bodies\<close>

record apply_body =
  b_postId :: oid
  b_message :: string

record review_body =
  b_applicationId :: oid
  b_rating :: int
  b_comment :: "string option"

record post_update =
  b_status :: "string option"
  b_title :: "string option"

text \<open>\<^verbatim>\<open>z.enum(['ACCEPTED', 'REJECTED'])\<close> and \<^verbatim>\<open>z.enum(['OPEN', 'CLOSED'])\<close>.\<close>

definition parse_app_status :: "string \<Rightarrow> app_status option" where
  "parse_app_status v =
     (if v = ''ACCEPTED'' then Some ACCEPTED else if v = ''REJECTED'' then Some REJECTED else None)"

definition parse_post_status :: "string \<Rightarrow> post_status option" where
  "parse_post_status v =
     (if v = ''OPEN'' then Some OPEN else if v = ''CLOSED'' then Some CLOSED else None)"

definition quoted :: "string \<Rightarrow> string" where
  "quoted t = CHR 0x22 # t @ [CHR 0x22]"

subsection \<open>Applications: \<^verbatim>\<open>src/app/api/applications/route.ts\<close>\<close>

text \<open>
  \<^verbatim>\<open>POST /api/applications\<close>. The handler awaits the duplicate look-up and then the
  insert; \<open>env\<close> is what other requests did to the database between the two (the
  identity when the handler runs alone).
\<close>

definition POST_applications_race ::
  "(db \<Rightarrow> db) \<Rightarrow> session option \<Rightarrow> apply_body \<Rightarrow> bool \<Rightarrow> db \<Rightarrow> response \<times> db" where
  "POST_applications_race env sess body sink_ok s =
     (case sess of
        None \<Rightarrow> (unauthorizedResponse, s)
      | Some se \<Rightarrow>
          if role se \<noteq> ''PROVIDER''
          then (json 403 (Error ''Only Service Providers can apply to posts''), s)
          else if length (b_message body) < 10
          then (json 400 (Error ''Message must be at least 10 characters''), s)
          else if 1000 < length (b_message body) then (json 400 ZodIssue, s)
          else
            (case ServicePost_findById (b_postId body) s of
               None \<Rightarrow> (json 404 (Error ''Post not found''), s)
             | Some post \<Rightarrow>
                 if p_status post \<noteq> OPEN
                 then (json 400 (Error ''This post is no longer accepting applications''), s)
                 else if p_userId post = userId se
                 then (json 400 (Error ''You cannot apply to your own post''), s)
                 else if Application_findOne (b_postId body) (userId se) s \<noteq> None
                 then (json 409 (Error ''You have already applied to this post''), s)
                 else
                   (case Application_create (b_postId body) (userId se) (b_message body) (env s) of
                      Inl DuplicateKey \<Rightarrow>
                        (json 409 (Error ''You have already applied to this post''), env s)
                    | Inl ValidationError \<Rightarrow> (internalServerError, env s)
                    | Inr (application, s1) \<Rightarrow>
                        (json 201 (ApplicationDoc (Some application)),
                         createNotification sink_ok
                           \<lparr>n_userId = p_userId post, n_type = NEW_APPLICATION,
                            n_title = ''New Application Received'',
                            n_message = ''A provider applied to your post '' @ quoted (p_title post),
                            n_link = ''/dashboard/seeker'', n_read = False\<rparr> s1))))"

definition POST_applications ::
  "session option \<Rightarrow> apply_body \<Rightarrow> bool \<Rightarrow> db \<Rightarrow> response \<times> db" where
  "POST_applications = POST_applications_race (\<lambda>s. s)"

subsection \<open>Applications: \<^verbatim>\<open>src/app/api/applications/[id]/route.ts\<close>\<close>

text \<open>\<^verbatim>\<open>PATCH /api/applications/[id]\<close>: the post owner decides an application.\<close>

definition PATCH_application ::
  "session option \<Rightarrow> oid \<Rightarrow> string \<Rightarrow> bool \<Rightarrow> db \<Rightarrow> response \<times> db" where
  "PATCH_application sess i body_status sink_ok s =
     (case sess of
        None \<Rightarrow> (unauthorizedResponse, s)
      | Some se \<Rightarrow>
          if role se \<noteq> ''SEEKER'' then (json 403 (Error ''Forbidden''), s)
          else
            (case Application_findById i s of
               None \<Rightarrow> (json 404 (Error ''Application not found''), s)
             | Some application \<Rightarrow>
                 (case ServicePost_findById (a_postId application) s of
                    None \<Rightarrow> (json 403 (Error ''Forbidden: you do not own this post''), s)
                  | Some post \<Rightarrow>
                      if p_userId post \<noteq> userId se
                      then (json 403 (Error ''Forbidden: you do not own this post''), s)
                      else
                        (case parse_app_status body_status of
                           None \<Rightarrow> (json 400 ZodIssue, s)
                         | Some st \<Rightarrow>
                             let s1 = Application_findByIdAndUpdate i st s;
                                 updated = Application_findById i s1;
                                 s2 = (if st = ACCEPTED
                                       then ServicePost_findByIdAndUpdate (a_postId application)
                                              (Some CLOSED) None s1
                                       else s1);
                                 s3 = createNotification sink_ok
                                   \<lparr>n_userId = a_providerId application, n_type = STATUS_CHANGED,
                                    n_title = (if st = ACCEPTED then ''Application Accepted!''
                                               else ''Application Update''),
                                    n_message =
                                      (if st = ACCEPTED
                                       then ''Your application for '' @ quoted (p_title post)
                                            @ '' has been accepted!''
                                       else ''Your application for '' @ quoted (p_title post)
                                            @ '' was not selected.''),
                                    n_link = ''/dashboard/provider'', n_read = False\<rparr> s2
                             in (json 200 (ApplicationDoc updated), s3)))))"

text \<open>\<^verbatim>\<open>DELETE /api/applications/[id]\<close>: a provider withdraws an application.\<close>

definition DELETE_application :: "session option \<Rightarrow> oid \<Rightarrow> db \<Rightarrow> response \<times> db" where
  "DELETE_application sess i s =
     (case sess of
        None \<Rightarrow> (unauthorizedResponse, s)
      | Some se \<Rightarrow>
          if role se \<noteq> ''PROVIDER'' then (json 403 (Error ''Forbidden''), s)
          else
            (case Application_findById i s of
               None \<Rightarrow> (json 404 (Error ''Application not found''), s)
             | Some application \<Rightarrow>
                 if a_providerId application \<noteq> userId se
                 then (json 403 (Error ''Forbidden: not your application''), s)
                 else if a_status application \<noteq> PENDING
                 then (json 400 (Error ''Only pending applications can be withdrawn''), s)
                 else (json 200 (Message ''Application withdrawn successfully''),
                       Application_findByIdAndDelete i s)))"

subsection \<open>Posts: \<^verbatim>\<open>src/app/api/posts/route.ts\<close> and \<^verbatim>\<open>src/app/api/posts/[id]/route.ts\<close>\<close>

text \<open>
  \<^verbatim>\<open>POST /api/posts\<close> and \<^verbatim>\<open>PATCH /api/posts/[id]\<close>, for the two fields of a post
  that the handlers above read: the title and the status. The update runs the schema's
  validators (\<^verbatim>\<open>runValidators: true\<close>), on the trimmed title.
\<close>

definition POST_posts :: "session option \<Rightarrow> string \<Rightarrow> db \<Rightarrow> response \<times> db" where
  "POST_posts sess title s =
     (case sess of
        None \<Rightarrow> (unauthorizedResponse, s)
      | Some se \<Rightarrow>
          if role se \<noteq> ''SEEKER''
          then (json 403 (Error ''Only Service Seekers can create posts''), s)
          else if length title < 5
          then (json 400 (Error ''Title must be at least 5 characters''), s)
          else if 100 < length title then (json 400 ZodIssue, s)
          else
            (case ServicePost_create (userId se) title s of
               Inl e \<Rightarrow> (internalServerError, s)
             | Inr (post, s1) \<Rightarrow> (json 201 (PostDoc (Some post)), s1)))"

definition PATCH_post :: "session option \<Rightarrow> oid \<Rightarrow> post_update \<Rightarrow> db \<Rightarrow> response \<times> db" where
  "PATCH_post sess i body s =
     (case sess of
        None \<Rightarrow> (unauthorizedResponse, s)
      | Some se \<Rightarrow>
          if role se \<noteq> ''SEEKER'' then (json 403 (Error ''Forbidden''), s)
          else
            (case ServicePost_findById i s of
               None \<Rightarrow> (json 404 (Error ''Post not found''), s)
             | Some post \<Rightarrow>
                 if p_userId post \<noteq> userId se
                 then (json 403 (Error ''Forbidden: not your post''), s)
                 else if (case b_status body of None \<Rightarrow> False
                          | Some v \<Rightarrow> parse_post_status v = None)
                       \<or> (case b_title body of None \<Rightarrow> False
                           | Some t \<Rightarrow> length t < 5 \<or> 100 < length t)
                 then (json 400 ZodIssue, s)
                 else if (case b_title body of None \<Rightarrow> False | Some t \<Rightarrow> length (trim t) < 5)
                 then (internalServerError, s)
                 else
                   let s1 = ServicePost_findByIdAndUpdate i
                              (case b_status body of None \<Rightarrow> None | Some v \<Rightarrow> parse_post_status v)
                              (map_option trim (b_title body)) s
                   in (json 200 (PostDoc (ServicePost_findById i s1)), s1)))"

text \<open>\<^verbatim>\<open>DELETE /api/posts/[id]\<close>: the cascade, then the post.\<close>

definition DELETE_post :: "session option \<Rightarrow> oid \<Rightarrow> db \<Rightarrow> response \<times> db" where
  "DELETE_post sess i s =
     (case sess of
        None \<Rightarrow> (unauthorizedResponse, s)
      | Some se \<Rightarrow>
          if role se \<noteq> ''SEEKER'' then (json 403 (Error ''Forbidden''), s)
          else
            (case ServicePost_findById i s of
               None \<Rightarrow> (json 404 (Error ''Post not found''), s)
             | Some post \<Rightarrow>
                 if p_userId post \<noteq> userId se
                 then (json 403 (Error ''Forbidden: not your post''), s)
                 else (json 200 (Message ''Post deleted successfully''),
                       ServicePost_findByIdAndDelete i (Application_deleteMany i s))))"

subsection \<open>Reviews: \<^verbatim>\<open>src/app/api/reviews/route.ts\<close> and \<^verbatim>\<open>DELETE /api/reviews/[id]\<close>\<close>

definition rating_digit :: "int \<Rightarrow> string" where
  "rating_digit r = [char_of (48 + r)]"

text \<open>
  \<^verbatim>\<open>POST /api/reviews\<close>. As for applications, \<open>env\<close> is what other requests did
  between the duplicate look-up and the insert. The rating is an integer (zod's
  \<^verbatim>\<open>.int()\<close> rejects every other number).
\<close>

definition POST_reviews_race ::
  "(db \<Rightarrow> db) \<Rightarrow> session option \<Rightarrow> review_body \<Rightarrow> bool \<Rightarrow> db \<Rightarrow> response \<times> db" where
  "POST_reviews_race env sess body sink_ok s =
     (case sess of
        None \<Rightarrow> (unauthorizedResponse, s)
      | Some se \<Rightarrow>
          if role se \<noteq> ''SEEKER'' then (json 403 (Error ''Only seekers can write reviews''), s)
          else if b_rating body < 1 \<or> 5 < b_rating body
                  \<or> (case b_comment body of None \<Rightarrow> False | Some c \<Rightarrow> 500 < length c)
          then (json 400 ZodIssue, s)
          else
            (case Application_findById (b_applicationId body) s of
               None \<Rightarrow> (json 404 (Error ''Application not found''), s)
             | Some application \<Rightarrow>
                 if a_status application \<noteq> ACCEPTED
                 then (json 400 (Error ''Can only review accepted applications''), s)
                 else
                   (case ServicePost_findById (a_postId application) s of
                      None \<Rightarrow> (json 403 (Error ''Forbidden''), s)
                    | Some post \<Rightarrow>
                        if p_userId post \<noteq> userId se then (json 403 (Error ''Forbidden''), s)
                        else if Review_findOne (b_applicationId body) s \<noteq> None
                        then (json 409 (Error ''Review already submitted for this application''), s)
                        else
                          (case Review_create (userId se) (a_providerId application)
                                  (b_applicationId body) (b_rating body) (b_comment body) (env s) of
                             Inl DuplicateKey \<Rightarrow>
                               (json 409 (Error ''Review already submitted''), env s)
                           | Inl ValidationError \<Rightarrow> (internalServerError, env s)
                           | Inr (review, s1) \<Rightarrow>
                               let s2 = (case Review_aggregate (a_providerId application) s1 of
                                           None \<Rightarrow> s1
                                         | Some (avg, count) \<Rightarrow>
                                             User_findByIdAndUpdate (a_providerId application)
                                               (of_int (Math_round (avg * 10)) / 10) count s1);
                                   s3 = createNotification sink_ok
                                     \<lparr>n_userId = a_providerId application, n_type = NEW_REVIEW,
                                      n_title = ''You received a new review'',
                                      n_message =
                                        (case User_findById (userId se) s2 of
                                           None \<Rightarrow> ''A seeker'' | Some seeker \<Rightarrow> u_name seeker)
                                        @ '' left you a '' @ rating_digit (b_rating body)
                                        @ ''-star review.'',
                                      n_link = ''/dashboard/provider'', n_read = False\<rparr> s2
                               in (json 201 (ReviewDoc review), s3)))))"

definition POST_reviews ::
  "session option \<Rightarrow> review_body \<Rightarrow> bool \<Rightarrow> db \<Rightarrow> response \<times> db" where
  "POST_reviews = POST_reviews_race (\<lambda>s. s)"

definition DELETE_review :: "session option \<Rightarrow> oid \<Rightarrow> db \<Rightarrow> response \<times> db" where
  "DELETE_review sess i s =
     (case sess of
        None \<Rightarrow> (unauthorizedResponse, s)
      | Some se \<Rightarrow>
          (case Review_findById i s of
             None \<Rightarrow> (json 404 (Error ''Review not found''), s)
           | Some review \<Rightarrow>
               if r_seekerId review \<noteq> userId se then (json 403 (Error ''Forbidden''), s)
               else
                 let providerId = r_providerId review;
                     s1 = Review_findByIdAndDelete i s;
                     stats = Review_aggregate providerId s1;
                     s2 = User_findByIdAndUpdate providerId
                            (case stats of None \<Rightarrow> 0
                             | Some (avg, count) \<Rightarrow> of_int (Math_round (avg * 10)) / 10)
                            (case stats of None \<Rightarrow> 0 | Some (avg, count) \<Rightarrow> count) s1
                 in (json 200 (Message ''Review deleted''), s2)))"

subsection \<open>Registration\<close>

text \<open>
  \<^verbatim>\<open>POST /api/auth/register\<close>, without the e-mail and password checks, which only
  reject requests.
\<close>

definition POST_register :: "string \<Rightarrow> string \<Rightarrow> db \<Rightarrow> response \<times> db" where
  "POST_register name r s =
     (if length name < 2 then (json 400 (Error ''Name must be at least 2 characters''), s)
      else if r \<noteq> ''SEEKER'' \<and> r \<noteq> ''PROVIDER'' then (json 400 ZodIssue, s)
      else
        (case User_create name r s of
           Inl e \<Rightarrow> (internalServerError, s)
         | Inr (u, s1) \<Rightarrow> (json 201 (UserDoc u), s1)))"

subsection \<open>Runs of requests\<close>

datatype request =
    Register string string
  | CreatePost "session option" string
  | UpdatePost "session option" oid post_update
  | DeletePost "session option" oid
  | Apply "session option" apply_body bool
  | UpdateStatus "session option" oid string bool
  | Withdraw "session option" oid
  | CreateReview "session option" review_body bool
  | DeleteReview "session option" oid

fun exec :: "request \<Rightarrow> db \<Rightarrow> response \<times> db" where
  "exec (Register name r) s = POST_register name r s"
| "exec (CreatePost sess title) s = POST_posts sess title s"
| "exec (UpdatePost sess i body) s = PATCH_post sess i body s"
| "exec (DeletePost sess i) s = DELETE_post sess i s"
| "exec (Apply sess body ok) s = POST_applications sess body ok s"
| "exec (UpdateStatus sess i st ok) s = PATCH_application sess i st ok s"
| "exec (Withdraw sess i) s = DELETE_application sess i s"
| "exec (CreateReview sess body ok) s = POST_reviews sess body ok s"
| "exec (DeleteReview sess i) s = DELETE_review sess i s"

text \<open>The database after serving the requests one after the other, starting from \<open>s\<close>.\<close>

fun run :: "request list \<Rightarrow> db \<Rightarrow> db" where
  "run [] s = s"
| "run (q # qs) s = run qs (snd (exec q s))"

section \<open>Notions of the specification\<close>

subsection \<open>What a business operation persists\<close>

text \<open>
  What a business operation persists: every collection but the notifications, and the
  id generator.
\<close>

definition business_state ::
  "db \<Rightarrow> post list \<times> application list \<times> review list \<times> user list \<times> oid" where
  "business_state s = (posts s, applications s, reviews s, users s, next_oid s)"

subsection \<open>The rating projection\<close>

text \<open>
  The ratings of the reviews that name a provider, their arithmetic mean, and what it
  means for a stored value to be that mean rounded to one decimal place: a multiple of
  one tenth at most half a tenth away. A user record carries the projection of a list of
  ratings when its count is the length of the list and its average is the rounded mean,
  or 0 for the empty list.
\<close>

definition ratings_of :: "oid \<Rightarrow> db \<Rightarrow> int list" where
  "ratings_of prov s = map r_rating (filter (\<lambda>r. r_providerId r = prov) (reviews s))"

definition arithmetic_mean :: "int list \<Rightarrow> rat" where
  "arithmetic_mean xs = of_int (sum_list xs) / of_nat (length xs)"

definition rounded_to_one_decimal :: "rat \<Rightarrow> rat \<Rightarrow> bool" where
  "rounded_to_one_decimal x r \<longleftrightarrow>
     (\<exists>k::int. r = of_int k / 10) \<and> \<bar>r - x\<bar> \<le> 1 / 20"

definition rating_projection :: "int list \<Rightarrow> user \<Rightarrow> bool" where
  "rating_projection rs u \<longleftrightarrow>
     reviewCount u = length rs
     \<and> (if rs = [] then averageRating u = 0
        else rounded_to_one_decimal (arithmetic_mean rs) (averageRating u))"

text \<open>What the records of a provider store.\<close>

definition stored_rating :: "oid \<Rightarrow> db \<Rightarrow> (rat \<times> nat) list" where
  "stored_rating prov s =
     map (\<lambda>u. (averageRating u, reviewCount u)) (filter (\<lambda>u. u_id u = prov) (users s))"

subsection \<open>The inserted review\<close>

text \<open>The review that a successful \<^verbatim>\<open>POST /api/reviews\<close> inserts.\<close>

definition new_review :: "session \<Rightarrow> application \<Rightarrow> review_body \<Rightarrow> db \<Rightarrow> review" where
  "new_review se a b s =
     \<lparr>r_id = next_oid s, r_seekerId = userId se, r_providerId = a_providerId a,
      r_applicationId = b_applicationId b, r_rating = b_rating b,
      r_comment = map_option trim (b_comment b)\<rparr>"

subsection \<open>Invariants\<close>

text \<open>
  The key of the unique index on applications; the index holding; every application
  naming a post of the collection.
\<close>

definition app_key :: "application \<Rightarrow> oid \<times> oid" where
  "app_key a = (a_postId a, a_providerId a)"

definition unique_pairs :: "db \<Rightarrow> bool" where
  "unique_pairs s \<longleftrightarrow> distinct (map app_key (applications s))"

definition posts_exist :: "db \<Rightarrow> bool" where
  "posts_exist s \<longleftrightarrow>
     list_all (\<lambda>a. ServicePost_findById (a_postId a) s \<noteq> None) (applications s)"

text \<open>
  What one request can do to the posts and the applications: nothing; add a post; rewrite
  documents in place, keeping post ids and application keys; delete a post with all its
  applications; delete applications; add an application with a new key on a post that
  exists.
\<close>

definition effect :: "db \<Rightarrow> db \<Rightarrow> bool" where
  "effect s s' \<longleftrightarrow>
     (posts s' = posts s \<and> applications s' = applications s)
   \<or> (\<exists>p. posts s' = posts s @ [p] \<and> applications s' = applications s)
   \<or> (\<exists>f g. posts s' = map f (posts s) \<and> (\<forall>p. p_id (f p) = p_id p)
          \<and> applications s' = map g (applications s) \<and> (\<forall>a. app_key (g a) = app_key a))
   \<or> (\<exists>i. posts s' = filter (\<lambda>p. p_id p \<noteq> i) (posts s)
          \<and> applications s' = filter (\<lambda>a. a_postId a \<noteq> i) (applications s))
   \<or> (\<exists>P. posts s' = posts s \<and> applications s' = filter P (applications s))
   \<or> (\<exists>a. posts s' = posts s \<and> applications s' = applications s @ [a]
          \<and> a_postId a \<in> p_id ` set (posts s) \<and> app_key a \<notin> app_key ` set (applications s))"

section \<open>Example sessions and databases\<close>

definition seeker_S :: session where
  "seeker_S = \<lparr>userId = 0, role = ''SEEKER''\<rparr>"

definition provider_B :: session where
  "provider_B = \<lparr>userId = 1, role = ''PROVIDER''\<rparr>"

definition provider_C :: session where
  "provider_C = \<lparr>userId = 5, role = ''PROVIDER''\<rparr>"

text \<open>
  Seeker S owns an open post with one pending application and a closed post with an
  accepted and a pending application.
\<close>

definition db_market :: db where
  "db_market =
     \<lparr>posts = [\<lparr>p_id = 2, p_userId = 0, p_title = ''Build a site'', p_status = OPEN\<rparr>,
               \<lparr>p_id = 6, p_userId = 0, p_title = ''Design a logo'', p_status = CLOSED\<rparr>],
      applications =
        [\<lparr>a_id = 3, a_postId = 2, a_providerId = 1,
          a_message = ''I have 5 years experience in this field'', a_status = PENDING\<rparr>,
         \<lparr>a_id = 7, a_postId = 6, a_providerId = 1,
          a_message = ''I draw logos every day'', a_status = ACCEPTED\<rparr>,
         \<lparr>a_id = 8, a_postId = 6, a_providerId = 5,
          a_message = ''Logos are my speciality'', a_status = PENDING\<rparr>],
      reviews = [],
      users = [\<lparr>u_id = 0, u_name = ''Seeker S'', u_role = ''SEEKER'',
                averageRating = 0, reviewCount = 0\<rparr>,
               \<lparr>u_id = 1, u_name = ''Provider B'', u_role = ''PROVIDER'',
                averageRating = 0, reviewCount = 0\<rparr>,
               \<lparr>u_id = 5, u_name = ''Provider C'', u_role = ''PROVIDER'',
                averageRating = 0, reviewCount = 0\<rparr>],
      notifications = [], next_oid = 9\<rparr>"

text \<open>One open post with two pending applications.\<close>

definition db_hiring :: db where
  "db_hiring =
     \<lparr>posts = [\<lparr>p_id = 2, p_userId = 0, p_title = ''Build a site'', p_status = OPEN\<rparr>],
      applications =
        [\<lparr>a_id = 3, a_postId = 2, a_providerId = 1,
          a_message = ''I have 5 years experience in this field'', a_status = PENDING\<rparr>,
         \<lparr>a_id = 6, a_postId = 2, a_providerId = 5,
          a_message = ''Websites are my speciality'', a_status = PENDING\<rparr>],
      reviews = [],
      users = [\<lparr>u_id = 0, u_name = ''Seeker S'', u_role = ''SEEKER'',
                averageRating = 0, reviewCount = 0\<rparr>,
               \<lparr>u_id = 1, u_name = ''Provider B'', u_role = ''PROVIDER'',
                averageRating = 0, reviewCount = 0\<rparr>,
               \<lparr>u_id = 5, u_name = ''Provider C'', u_role = ''PROVIDER'',
                averageRating = 0, reviewCount = 0\<rparr>],
      notifications = [], next_oid = 7\<rparr>"

text \<open>Provider C has applied to the open post of \<open>db_market\<close>.\<close>

definition db_applied :: db where
  "db_applied = snd (POST_applications (Some provider_C)
                  \<lparr>b_postId = 2, b_message = ''I can start on Monday''\<rparr> True db_market)"

text \<open>
  Provider X has three reviews rated 5, 5 and 4 and a fourth accepted application that is
  not reviewed yet; then the fourth review, rated 3, is created; then it is deleted; then
  the other three are deleted.
\<close>

definition db_reviews :: db where
  "db_reviews =
     \<lparr>posts = [\<lparr>p_id = 10, p_userId = 0, p_title = ''Build a site'', p_status = CLOSED\<rparr>,
               \<lparr>p_id = 11, p_userId = 0, p_title = ''Design a logo'', p_status = CLOSED\<rparr>,
               \<lparr>p_id = 12, p_userId = 0, p_title = ''Write the manual'', p_status = CLOSED\<rparr>,
               \<lparr>p_id = 13, p_userId = 0, p_title = ''Tune the database'', p_status = CLOSED\<rparr>],
      applications =
        [\<lparr>a_id = 20, a_postId = 10, a_providerId = 1,
          a_message = ''I build sites every day'', a_status = ACCEPTED\<rparr>,
         \<lparr>a_id = 21, a_postId = 11, a_providerId = 1,
          a_message = ''I draw logos every day'', a_status = ACCEPTED\<rparr>,
         \<lparr>a_id = 22, a_postId = 12, a_providerId = 1,
          a_message = ''I write manuals every day'', a_status = ACCEPTED\<rparr>,
         \<lparr>a_id = 23, a_postId = 13, a_providerId = 1,
          a_message = ''I tune databases every day'', a_status = ACCEPTED\<rparr>],
      reviews =
        [\<lparr>r_id = 30, r_seekerId = 0, r_providerId = 1, r_applicationId = 20, r_rating = 5,
          r_comment = Some ''Great work''\<rparr>,
         \<lparr>r_id = 31, r_seekerId = 0, r_providerId = 1, r_applicationId = 21, r_rating = 5,
          r_comment = None\<rparr>,
         \<lparr>r_id = 32, r_seekerId = 0, r_providerId = 1, r_applicationId = 22, r_rating = 4,
          r_comment = None\<rparr>],
      users = [\<lparr>u_id = 0, u_name = ''Seeker S'', u_role = ''SEEKER'',
                averageRating = 0, reviewCount = 0\<rparr>,
               \<lparr>u_id = 1, u_name = ''Provider X'', u_role = ''PROVIDER'',
                averageRating = 47 / 10, reviewCount = 3\<rparr>],
      notifications = [], next_oid = 40\<rparr>"

definition db_reviews4 :: db where
  "db_reviews4 = snd (POST_reviews (Some seeker_S)
                   \<lparr>b_applicationId = 23, b_rating = 3, b_comment = None\<rparr> True db_reviews)"

definition db_reviews3 :: db where
  "db_reviews3 = snd (DELETE_review (Some seeker_S) 40 db_reviews4)"

definition db_reviews0 :: db where
  "db_reviews0 = snd (DELETE_review (Some seeker_S) 32 (snd (DELETE_review (Some seeker_S) 31
                   (snd (DELETE_review (Some seeker_S) 30 db_reviews3)))))"

text \<open>
  The end-to-end scenario: S and B register, S posts, B applies, S accepts and reviews.
  Then S deletes the post.
\<close>

definition scenario :: "request list" where
  "scenario =
     [Register ''Seeker S'' ''SEEKER'', Register ''Provider B'' ''PROVIDER'',
      CreatePost (Some seeker_S) ''Build a site'',
      Apply (Some provider_B)
        \<lparr>b_postId = 2, b_message = ''I have 5 years experience in this field''\<rparr> True,
      UpdateStatus (Some seeker_S) 3 ''ACCEPTED'' True,
      CreateReview (Some seeker_S)
        \<lparr>b_applicationId = 3, b_rating = 5, b_comment = Some ''Great work''\<rparr> True]"

text \<open>
  The start of the scenario, up to the post, and B's application to it.
\<close>

definition scenario_posted :: "request list" where
  "scenario_posted =
     [Register ''Seeker S'' ''SEEKER'', Register ''Provider B'' ''PROVIDER'',
      CreatePost (Some seeker_S) ''Build a site'']"

definition apply_B :: apply_body where
  "apply_B = \<lparr>b_postId = 2, b_message = ''I have 5 years experience in this field''\<rparr>"

definition db_orphan :: db where
  "db_orphan = run (scenario @ [DeletePost (Some seeker_S) 2]) empty_db"

section \<open>Properties\<close>

subsection \<open>Lists\<close>

lemma find_filter_None: "find P (filter (\<lambda>x. \<not> P x) xs) = None"
  by (induction xs) auto

lemma find_None_list_ex: "find P xs = None \<longleftrightarrow> \<not> list_ex P xs"
  by (auto simp: find_None_iff list_ex_iff)

lemma find_append_new:
  assumes "P a"
  shows "find P (xs @ [a]) \<noteq> None"
  using assms by (auto simp: find_None_iff)

lemma find_map_update:
  assumes "\<And>x. key (f x) = key x"
  shows "find (\<lambda>x. key x = i) (map (\<lambda>x. if key x = i then f x else x) xs)
           = map_option f (find (\<lambda>x. key x = i) xs)"
  using assms by (induction xs) auto

lemma find_map_update_other:
  assumes "\<And>x. key (f x) = key x" and "j \<noteq> i"
  shows "find (\<lambda>x. key x = j) (map (\<lambda>x. if key x = i then f x else x) xs)
           = find (\<lambda>x. key x = j) xs"
  using assms by (induction xs) auto

lemma filter_map_update:
  assumes "\<And>x. key (f x) = key x"
  shows "filter (\<lambda>x. key x \<noteq> i) (map (\<lambda>x. if key x = i then f x else x) xs)
           = filter (\<lambda>x. key x \<noteq> i) xs"
  using assms by (induction xs) auto

subsection \<open>Primitives\<close>

lemma length_trim_le: "length (trim m) \<le> length m"
proof -
  have "length (dropWhile is_space (rev (dropWhile is_space m)))
          \<le> length (rev (dropWhile is_space m))"
    by (rule length_dropWhile_le)
  also have "\<dots> \<le> length m"
    by (simp add: length_dropWhile_le)
  finally show ?thesis
    by (simp add: trim_def)
qed

lemma createNotification_fields [simp]:
  "posts (createNotification ok n s) = posts s"
  "applications (createNotification ok n s) = applications s"
  "reviews (createNotification ok n s) = reviews s"
  "users (createNotification ok n s) = users s"
  "next_oid (createNotification ok n s) = next_oid s"
  by (simp_all add: createNotification_def)

lemma status_simps [simp]:
  "status (json n p) = n"
  "status unauthorizedResponse = 401"
  "status internalServerError = 500"
  by (simp_all add: json_def unauthorizedResponse_def internalServerError_def)

lemma update_fields [simp]:
  "posts (Application_findByIdAndUpdate i st s) = posts s"
  "reviews (Application_findByIdAndUpdate i st s) = reviews s"
  "users (Application_findByIdAndUpdate i st s) = users s"
  "next_oid (Application_findByIdAndUpdate i st s) = next_oid s"
  "applications (ServicePost_findByIdAndUpdate j pst t s) = applications s"
  "reviews (ServicePost_findByIdAndUpdate j pst t s) = reviews s"
  "users (ServicePost_findByIdAndUpdate j pst t s) = users s"
  "next_oid (ServicePost_findByIdAndUpdate j pst t s) = next_oid s"
  by (simp_all add: Application_findByIdAndUpdate_def ServicePost_findByIdAndUpdate_def)

lemma users_User_findByIdAndUpdate:
  "users (User_findByIdAndUpdate i avg cnt s)
     = map (\<lambda>u. if u_id u = i then u\<lparr>averageRating := avg, reviewCount := cnt\<rparr> else u) (users s)"
  "reviews (User_findByIdAndUpdate i avg cnt s) = reviews s"
  "posts (User_findByIdAndUpdate i avg cnt s) = posts s"
  "applications (User_findByIdAndUpdate i avg cnt s) = applications s"
  "next_oid (User_findByIdAndUpdate i avg cnt s) = next_oid s"
  by (simp_all add: User_findByIdAndUpdate_def)

lemma Application_findById_update:
  "Application_findById j (Application_findByIdAndUpdate i st s)
     = (if j = i then map_option (\<lambda>a. a\<lparr>a_status := st\<rparr>) (Application_findById i s)
        else Application_findById j s)"
  using find_map_update [of a_id "\<lambda>a. a\<lparr>a_status := st\<rparr>" i "applications s"]
    find_map_update_other [of a_id "\<lambda>a. a\<lparr>a_status := st\<rparr>" j i "applications s"]
  by (simp add: Application_findById_def Application_findByIdAndUpdate_def)

lemma ServicePost_findById_update:
  "ServicePost_findById j (ServicePost_findByIdAndUpdate i pst t s)
     = (if j = i
        then map_option (\<lambda>p. p\<lparr>p_status := (case pst of None \<Rightarrow> p_status p | Some v \<Rightarrow> v),
                                p_title := (case t of None \<Rightarrow> p_title p | Some x \<Rightarrow> x)\<rparr>)
               (ServicePost_findById i s)
        else ServicePost_findById j s)"
  using find_map_update [of p_id
      "\<lambda>p. p\<lparr>p_status := (case pst of None \<Rightarrow> p_status p | Some v \<Rightarrow> v),
             p_title := (case t of None \<Rightarrow> p_title p | Some x \<Rightarrow> x)\<rparr>" i "posts s"]
    find_map_update_other [of p_id
      "\<lambda>p. p\<lparr>p_status := (case pst of None \<Rightarrow> p_status p | Some v \<Rightarrow> v),
             p_title := (case t of None \<Rightarrow> p_title p | Some x \<Rightarrow> x)\<rparr>" j i "posts s"]
  by (simp add: ServicePost_findById_def ServicePost_findByIdAndUpdate_def)

lemma ServicePost_findById_None: "ServicePost_findById i s = None \<longleftrightarrow> i \<notin> p_id ` set (posts s)"
  by (auto simp: ServicePost_findById_def find_None_iff)

lemma parse_app_status_cases:
  "parse_app_status v = Some st \<longleftrightarrow> (v = ''ACCEPTED'' \<and> st = ACCEPTED) \<or> (v = ''REJECTED'' \<and> st = REJECTED)"
  by (auto simp: parse_app_status_def)

text \<open>The definitions that evaluate a handler on a concrete database.\<close>

lemmas eval_defs =
  json_def unauthorizedResponse_def internalServerError_def trim_def is_space_def quoted_def
  ServicePost_findById_def Application_findById_def Application_findOne_def Review_findById_def
  Review_findOne_def User_findById_def Review_aggregate_def Math_round_def
  Application_create_def Application_findByIdAndUpdate_def Application_findByIdAndDelete_def
  Application_deleteMany_def ServicePost_create_def ServicePost_findByIdAndUpdate_def
  ServicePost_findByIdAndDelete_def Review_create_def Review_findByIdAndDelete_def
  User_findByIdAndUpdate_def User_create_def createNotification_def
  parse_app_status_def parse_post_status_def rating_digit_def
  seeker_S_def provider_B_def provider_C_def Let_def

lemmas handler_defs =
  POST_register_def POST_posts_def PATCH_post_def DELETE_post_def POST_applications_def
  POST_applications_race_def PATCH_application_def DELETE_application_def POST_reviews_def
  POST_reviews_race_def DELETE_review_def

subsection \<open>Applying to a post\<close>

text \<open>
  C1, as the handler has it. For a provider's session and a message of 10 to 1000
  characters, the checks run in this order: no such post, 404; post not \<^verbatim>\<open>OPEN\<close>, 400;
  the session's identity equal to the post's owner, 400 (the handler answers a
  self-application with the status of a bad request, not with 403); an application for
  (post, identity) already there, 409; each time the database is left as it was.
  Otherwise, when the message keeps at least 10 characters after trimming, the response
  is 201 with the new application, which is appended to the collection with status
  \<^verbatim>\<open>PENDING\<close>.
\<close>

theorem apply_outcomes:
  assumes "role se = ''PROVIDER''"
    and "10 \<le> length (b_message b)"
    and "length (b_message b) \<le> 1000"
  shows
    "(ServicePost_findById (b_postId b) s = None \<longrightarrow>
        POST_applications (Some se) b ok s = (json 404 (Error ''Post not found''), s))
   \<and> (\<forall>p. ServicePost_findById (b_postId b) s = Some p \<and> p_status p \<noteq> OPEN \<longrightarrow>
        POST_applications (Some se) b ok s
          = (json 400 (Error ''This post is no longer accepting applications''), s))
   \<and> (\<forall>p. ServicePost_findById (b_postId b) s = Some p \<and> p_status p = OPEN
           \<and> p_userId p = userId se \<longrightarrow>
        POST_applications (Some se) b ok s
          = (json 400 (Error ''You cannot apply to your own post''), s))
   \<and> (\<forall>p a. ServicePost_findById (b_postId b) s = Some p \<and> p_status p = OPEN
           \<and> p_userId p \<noteq> userId se
           \<and> Application_findOne (b_postId b) (userId se) s = Some a \<longrightarrow>
        POST_applications (Some se) b ok s
          = (json 409 (Error ''You have already applied to this post''), s))
   \<and> (\<forall>p. ServicePost_findById (b_postId b) s = Some p \<and> p_status p = OPEN
           \<and> p_userId p \<noteq> userId se
           \<and> Application_findOne (b_postId b) (userId se) s = None
           \<and> 10 \<le> length (trim (b_message b)) \<longrightarrow>
        fst (POST_applications (Some se) b ok s)
          = json 201 (ApplicationDoc (Some
              \<lparr>a_id = next_oid s, a_postId = b_postId b, a_providerId = userId se,
               a_message = trim (b_message b), a_status = PENDING\<rparr>))
        \<and> applications (snd (POST_applications (Some se) b ok s))
          = applications s @
              [\<lparr>a_id = next_oid s, a_postId = b_postId b, a_providerId = userId se,
                a_message = trim (b_message b), a_status = PENDING\<rparr>])"
proof -
  have t: "length (trim (b_message b)) \<le> 1000"
    using length_trim_le [of "b_message b"] assms(3) by linarith
  show ?thesis
    using assms t
    by (auto simp: POST_applications_def POST_applications_race_def Application_create_def
          Application_findOne_def find_None_list_ex Let_def)
qed

theorem apply_outcomes_witness:
  "POST_applications (Some provider_C)
      \<lparr>b_postId = 99, b_message = ''I can start on Monday''\<rparr> True db_market
     = (json 404 (Error ''Post not found''), db_market)
   \<and> POST_applications (Some provider_C)
        \<lparr>b_postId = 6, b_message = ''I can start on Monday''\<rparr> True db_market
       = (json 400 (Error ''This post is no longer accepting applications''), db_market)
   \<and> POST_applications (Some \<lparr>userId = 0, role = ''PROVIDER''\<rparr>)
        \<lparr>b_postId = 2, b_message = ''I can start on Monday''\<rparr> True db_market
       = (json 400 (Error ''You cannot apply to your own post''), db_market)
   \<and> POST_applications (Some provider_B)
        \<lparr>b_postId = 2, b_message = ''I can start on Monday''\<rparr> True db_market
       = (json 409 (Error ''You have already applied to this post''), db_market)
   \<and> fst (POST_applications (Some provider_C)
        \<lparr>b_postId = 2, b_message = ''I can start on Monday''\<rparr> True db_market)
       = json 201 (ApplicationDoc (Some
           \<lparr>a_id = 9, a_postId = 2, a_providerId = 5, a_message = ''I can start on Monday'',
            a_status = PENDING\<rparr>))
   \<and> map a_id (applications (snd (POST_applications (Some provider_C)
        \<lparr>b_postId = 2, b_message = ''I can start on Monday''\<rparr> True db_market))) = [3, 7, 8, 9]"
proof -
  let ?m = "''I can start on Monday''"
  have p99: "ServicePost_findById 99 db_market = None"
    by (simp add: ServicePost_findById_def db_market_def)
  have p6: "ServicePost_findById 6 db_market
              = Some \<lparr>p_id = 6, p_userId = 0, p_title = ''Design a logo'', p_status = CLOSED\<rparr>"
    by (simp add: ServicePost_findById_def db_market_def)
  have p2: "ServicePost_findById 2 db_market
              = Some \<lparr>p_id = 2, p_userId = 0, p_title = ''Build a site'', p_status = OPEN\<rparr>"
    by (simp add: ServicePost_findById_def db_market_def)
  have dupB: "Application_findOne 2 1 db_market
              = Some \<lparr>a_id = 3, a_postId = 2, a_providerId = 1,
                      a_message = ''I have 5 years experience in this field'',
                      a_status = PENDING\<rparr>"
    by (simp add: Application_findOne_def db_market_def)
  have dupC: "Application_findOne 2 5 db_market = None"
    by (simp add: Application_findOne_def db_market_def)
  have tr: "trim ?m = ?m"
    by (simp add: trim_def is_space_def)
  have w1: "POST_applications (Some provider_C) \<lparr>b_postId = 99, b_message = ?m\<rparr> True db_market
              = (json 404 (Error ''Post not found''), db_market)"
    using apply_outcomes [of provider_C "\<lparr>b_postId = 99, b_message = ?m\<rparr>" db_market True] p99
    by (simp add: provider_C_def)
  have w2: "POST_applications (Some provider_C) \<lparr>b_postId = 6, b_message = ?m\<rparr> True db_market
              = (json 400 (Error ''This post is no longer accepting applications''), db_market)"
    using apply_outcomes [of provider_C "\<lparr>b_postId = 6, b_message = ?m\<rparr>" db_market True] p6
    by (simp add: provider_C_def)
  have w3: "POST_applications (Some \<lparr>userId = 0, role = ''PROVIDER''\<rparr>)
              \<lparr>b_postId = 2, b_message = ?m\<rparr> True db_market
              = (json 400 (Error ''You cannot apply to your own post''), db_market)"
    using apply_outcomes [of "\<lparr>userId = 0, role = ''PROVIDER''\<rparr>"
        "\<lparr>b_postId = 2, b_message = ?m\<rparr>" db_market True] p2
    by simp
  have w4: "POST_applications (Some provider_B) \<lparr>b_postId = 2, b_message = ?m\<rparr> True db_market
              = (json 409 (Error ''You have already applied to this post''), db_market)"
    using apply_outcomes [of provider_B "\<lparr>b_postId = 2, b_message = ?m\<rparr>" db_market True]
      p2 dupB
    by (simp add: provider_B_def)
  have w5: "fst (POST_applications (Some provider_C) \<lparr>b_postId = 2, b_message = ?m\<rparr> True db_market)
              = json 201 (ApplicationDoc (Some
                  \<lparr>a_id = 9, a_postId = 2, a_providerId = 5, a_message = ?m, a_status = PENDING\<rparr>))
            \<and> map a_id (applications (snd (POST_applications (Some provider_C)
                  \<lparr>b_postId = 2, b_message = ?m\<rparr> True db_market))) = [3, 7, 8, 9]"
    using apply_outcomes [of provider_C "\<lparr>b_postId = 2, b_message = ?m\<rparr>" db_market True]
      p2 dupC tr
    by (simp add: provider_C_def) (simp add: db_market_def)
  show ?thesis
    using w1 w2 w3 w4 w5 by simp
qed

text \<open>
  Where the handler differs from the specification's wording. The owner of an open post
  who applies to it is answered 400, not 403. And a message of ten characters of which
  nine are leading blanks, or leading no-break spaces, passes the handler's length check
  but not the schema's, which runs on the trimmed message: the answer is 500 and nothing
  is persisted.
\<close>

theorem self_application_counterexample:
  "fst (POST_applications (Some \<lparr>userId = 0, role = ''PROVIDER''\<rparr>)
          \<lparr>b_postId = 2, b_message = ''I have 5 years experience in this field''\<rparr> True db_market)
     = json 400 (Error ''You cannot apply to your own post'')
   \<and> status (fst (POST_applications (Some \<lparr>userId = 0, role = ''PROVIDER''\<rparr>)
          \<lparr>b_postId = 2, b_message = ''I have 5 years experience in this field''\<rparr> True db_market))
       \<noteq> 403
   \<and> POST_applications (Some provider_C) \<lparr>b_postId = 2, b_message = ''         a''\<rparr> True db_market
       = (internalServerError, db_market)
   \<and> POST_applications (Some provider_C)
        \<lparr>b_postId = 2,
         b_message = [CHR 0xA0, CHR 0xA0, CHR 0xA0, CHR 0xA0, CHR 0xA0, CHR 0xA0, CHR 0xA0, CHR 0xA0, CHR 0xA0,
                      CHR ''a'']\<rparr> True db_market
       = (internalServerError, db_market)"
  by (simp add: POST_applications_def POST_applications_race_def db_market_def json_def
        ServicePost_findById_def Application_findOne_def Application_create_def trim_def
        is_space_def provider_C_def)

subsection \<open>Deciding an application\<close>

text \<open>The shape of a successful status update.\<close>

lemma PATCH_application_success:
  assumes "status (fst (PATCH_application sess i v ok s)) = 200"
  shows "\<exists>se a p st. sess = Some se \<and> role se = ''SEEKER'' \<and> Application_findById i s = Some a
    \<and> ServicePost_findById (a_postId a) s = Some p \<and> p_userId p = userId se
    \<and> parse_app_status v = Some st
    \<and> applications (snd (PATCH_application sess i v ok s))
       = map (\<lambda>a. if a_id a = i then a\<lparr>a_status := st\<rparr> else a) (applications s)
    \<and> posts (snd (PATCH_application sess i v ok s))
       = (if st = ACCEPTED
          then map (\<lambda>q. if p_id q = a_postId a then q\<lparr>p_status := CLOSED\<rparr> else q) (posts s)
          else posts s)"
proof (cases sess)
  case None
  then show ?thesis using assms by (simp add: PATCH_application_def)
next
  case (Some se)
  show ?thesis
  proof (cases "Application_findById i s")
    case None
    then show ?thesis using assms Some by (simp add: PATCH_application_def split: if_splits)
  next
    case a: (Some a)
    show ?thesis
    proof (cases "ServicePost_findById (a_postId a) s")
      case None
      then show ?thesis using assms Some a by (simp add: PATCH_application_def split: if_splits)
    next
      case p: (Some p)
      show ?thesis
      proof (cases "parse_app_status v")
        case None
        then show ?thesis
          using assms Some a p by (simp add: PATCH_application_def split: if_splits)
      next
        case st: (Some st)
        have g: "role se = ''SEEKER''" "p_userId p = userId se"
          using assms Some a p st by (simp_all add: PATCH_application_def split: if_splits)
        have e: "snd (PATCH_application sess i v ok s)
                   = createNotification ok
                       \<lparr>n_userId = a_providerId a, n_type = STATUS_CHANGED,
                        n_title = (if st = ACCEPTED then ''Application Accepted!''
                                   else ''Application Update''),
                        n_message =
                          (if st = ACCEPTED
                           then ''Your application for '' @ quoted (p_title p)
                                @ '' has been accepted!''
                           else ''Your application for '' @ quoted (p_title p)
                                @ '' was not selected.''),
                        n_link = ''/dashboard/provider'', n_read = False\<rparr>
                       (if st = ACCEPTED
                        then ServicePost_findByIdAndUpdate (a_postId a) (Some CLOSED) None
                               (Application_findByIdAndUpdate i st s)
                        else Application_findByIdAndUpdate i st s)"
          using Some a p st g by (simp add: PATCH_application_def Let_def)
        have apps: "applications (snd (PATCH_application sess i v ok s))
                 = map (\<lambda>a. if a_id a = i then a\<lparr>a_status := st\<rparr> else a) (applications s)"
          unfolding e by (simp add: Application_findByIdAndUpdate_def)
        have ps: "posts (snd (PATCH_application sess i v ok s))
                 = (if st = ACCEPTED
                    then map (\<lambda>q. if p_id q = a_postId a then q\<lparr>p_status := CLOSED\<rparr> else q) (posts s)
                    else posts s)"
          unfolding e by (simp add: ServicePost_findByIdAndUpdate_def)
        show ?thesis
          using Some a p st g apps ps by blast
      qed
    qed
  qed
qed

lemma PATCH_application_failure:
  assumes "status (fst (PATCH_application sess i v ok s)) \<noteq> 200"
  shows "snd (PATCH_application sess i v ok s) = s"
proof (cases sess)
  case None
  then show ?thesis by (simp add: PATCH_application_def)
next
  case (Some se)
  show ?thesis
  proof (cases "Application_findById i s")
    case None
    then show ?thesis using Some by (simp add: PATCH_application_def)
  next
    case a: (Some a)
    show ?thesis
    proof (cases "ServicePost_findById (a_postId a) s")
      case None
      then show ?thesis using Some a by (simp add: PATCH_application_def)
    next
      case p: (Some p)
      show ?thesis
      proof (cases "parse_app_status v")
        case None
        then show ?thesis using Some a p by (simp add: PATCH_application_def)
      next
        case st: (Some st)
        show ?thesis
          using assms Some a p st
          by (cases "role se = ''SEEKER''"; cases "p_userId p = userId se")
             (simp_all add: PATCH_application_def Let_def)
      qed
    qed
  qed
qed

text \<open>
  C4. When the status update succeeds: if the target is \<^verbatim>\<open>ACCEPTED\<close>, the post of the
  application is \<^verbatim>\<open>CLOSED\<close> afterwards; every application other than the decided one
  is exactly as it was before (no other application is rejected along the way); if the
  target is \<^verbatim>\<open>REJECTED\<close>, the posts are exactly as they were.
\<close>

theorem accept_closes_post:
  assumes "status (fst (PATCH_application sess i v ok s)) = 200"
  shows "(\<forall>a. v = ''ACCEPTED'' \<and> Application_findById i s = Some a \<longrightarrow>
            map_option p_status
              (ServicePost_findById (a_postId a) (snd (PATCH_application sess i v ok s)))
              = Some CLOSED)
       \<and> filter (\<lambda>b. a_id b \<noteq> i) (applications (snd (PATCH_application sess i v ok s)))
           = filter (\<lambda>b. a_id b \<noteq> i) (applications s)
       \<and> (v = ''REJECTED'' \<longrightarrow> posts (snd (PATCH_application sess i v ok s)) = posts s)"
proof -
  obtain a p st where h:
    "Application_findById i s = Some a"
    "ServicePost_findById (a_postId a) s = Some p"
    "parse_app_status v = Some st"
    "applications (snd (PATCH_application sess i v ok s))
       = map (\<lambda>a. if a_id a = i then a\<lparr>a_status := st\<rparr> else a) (applications s)"
    "posts (snd (PATCH_application sess i v ok s))
       = (if st = ACCEPTED
          then map (\<lambda>q. if p_id q = a_postId a then q\<lparr>p_status := CLOSED\<rparr> else q) (posts s)
          else posts s)"
    using PATCH_application_success [OF assms] by blast
  have others: "filter (\<lambda>b. a_id b \<noteq> i) (applications (snd (PATCH_application sess i v ok s)))
           = filter (\<lambda>b. a_id b \<noteq> i) (applications s)"
    using filter_map_update [of a_id "\<lambda>a. a\<lparr>a_status := st\<rparr>" i "applications s"] h(4)
    by simp
  have closed: "map_option p_status
        (ServicePost_findById (a_postId a) (snd (PATCH_application sess i v ok s))) = Some CLOSED"
    if "v = ''ACCEPTED''"
  proof -
    have "st = ACCEPTED"
      using h(3) that by (simp add: parse_app_status_def)
    then show ?thesis
      using h(2) h(5)
        find_map_update [of p_id "\<lambda>p. p\<lparr>p_status := CLOSED\<rparr>" "a_postId a" "posts s"]
      by (simp add: ServicePost_findById_def)
  qed
  have rejected: "posts (snd (PATCH_application sess i v ok s)) = posts s" if "v = ''REJECTED''"
    using h(3) h(5) that by (simp add: parse_app_status_def)
  show ?thesis
    using others closed rejected h(1) by simp
qed

theorem accept_closes_post_witness:
  "status (fst (PATCH_application (Some seeker_S) 3 ''ACCEPTED'' True db_hiring)) = 200
   \<and> map_option p_status (ServicePost_findById 2
         (snd (PATCH_application (Some seeker_S) 3 ''ACCEPTED'' True db_hiring))) = Some CLOSED
   \<and> map a_status (filter (\<lambda>b. a_id b \<noteq> 3)
         (applications (snd (PATCH_application (Some seeker_S) 3 ''ACCEPTED'' True db_hiring))))
       = [PENDING]
   \<and> status (fst (PATCH_application (Some seeker_S) 3 ''REJECTED'' True db_hiring)) = 200
   \<and> map p_status (posts (snd (PATCH_application (Some seeker_S) 3 ''REJECTED'' True db_hiring)))
       = [OPEN]"
proof -
  have ok1: "status (fst (PATCH_application (Some seeker_S) 3 ''ACCEPTED'' True db_hiring)) = 200"
    by (simp add: PATCH_application_def db_hiring_def eval_defs)
  have ok2: "status (fst (PATCH_application (Some seeker_S) 3 ''REJECTED'' True db_hiring)) = 200"
    by (simp add: PATCH_application_def db_hiring_def eval_defs)
  have a3: "Application_findById 3 db_hiring
              = Some \<lparr>a_id = 3, a_postId = 2, a_providerId = 1,
                      a_message = ''I have 5 years experience in this field'',
                      a_status = PENDING\<rparr>"
    by (simp add: Application_findById_def db_hiring_def)
  have rest: "map a_status (filter (\<lambda>b. a_id b \<noteq> 3) (applications db_hiring)) = [PENDING]"
    "map p_status (posts db_hiring) = [OPEN]"
    by (simp_all add: db_hiring_def)
  show ?thesis
    using accept_closes_post [OF ok1] accept_closes_post [OF ok2] ok1 ok2 a3 rest
    by simp
qed

text \<open>
  C3, as the handler has it. The status update has no guard on the current status: for the
  owner of the post it succeeds on an application in any status and leaves it in the
  requested one, \<^verbatim>\<open>ACCEPTED\<close> or \<^verbatim>\<open>REJECTED\<close>. The only direction that is closed is
  the one back to \<^verbatim>\<open>PENDING\<close>: an application that is pending after the operation was
  the same pending document before it.
\<close>

theorem status_update_overwrites:
  "(\<forall>se a p st. sess = Some se \<and> role se = ''SEEKER'' \<and> Application_findById i s = Some a
       \<and> ServicePost_findById (a_postId a) s = Some p \<and> p_userId p = userId se
       \<and> parse_app_status v = Some st \<longrightarrow>
       status (fst (PATCH_application sess i v ok s)) = 200
       \<and> map_option a_status (Application_findById i (snd (PATCH_application sess i v ok s)))
           = Some st)
   \<and> (\<forall>j a'. Application_findById j (snd (PATCH_application sess i v ok s)) = Some a'
          \<and> a_status a' = PENDING \<longrightarrow> Application_findById j s = Some a')"
proof (intro conjI allI impI)
  fix se a p st
  assume h: "sess = Some se \<and> role se = ''SEEKER'' \<and> Application_findById i s = Some a
       \<and> ServicePost_findById (a_postId a) s = Some p \<and> p_userId p = userId se
       \<and> parse_app_status v = Some st"
  then show ok: "status (fst (PATCH_application sess i v ok s)) = 200"
    by (simp add: PATCH_application_def Let_def)
  from PATCH_application_success [OF ok] h
  have "applications (snd (PATCH_application sess i v ok s))
       = map (\<lambda>a. if a_id a = i then a\<lparr>a_status := st\<rparr> else a) (applications s)"
    by auto
  then show "map_option a_status (Application_findById i (snd (PATCH_application sess i v ok s)))
           = Some st"
    using h find_map_update [of a_id "\<lambda>a. a\<lparr>a_status := st\<rparr>" i "applications s"]
    by (simp add: Application_findById_def)
next
  fix j a'
  assume h: "Application_findById j (snd (PATCH_application sess i v ok s)) = Some a'
          \<and> a_status a' = PENDING"
  show "Application_findById j s = Some a'"
  proof (cases "status (fst (PATCH_application sess i v ok s)) = 200")
    case False
    then show ?thesis
      using h PATCH_application_failure [of sess i v ok s] by simp
  next
    case True
    from PATCH_application_success [OF True]
    obtain st where st: "parse_app_status v = Some st"
      "applications (snd (PATCH_application sess i v ok s))
         = map (\<lambda>a. if a_id a = i then a\<lparr>a_status := st\<rparr> else a) (applications s)"
      by blast
    have np: "st \<noteq> PENDING"
      using st(1) by (auto simp: parse_app_status_def split: if_splits)
    show ?thesis
    proof (cases "j = i")
      case True
      then show ?thesis
        using h st(2) np find_map_update [of a_id "\<lambda>a. a\<lparr>a_status := st\<rparr>" i "applications s"]
        by (auto simp: Application_findById_def)
    next
      case False
      then show ?thesis
        using h st(2)
          find_map_update_other [of a_id "\<lambda>a. a\<lparr>a_status := st\<rparr>" j i "applications s"]
        by (simp add: Application_findById_def)
    qed
  qed
qed

theorem status_update_overwrites_witness:
  "status (fst (PATCH_application (Some seeker_S) 7 ''REJECTED'' False db_market)) = 200
   \<and> map_option a_status (Application_findById 7
        (snd (PATCH_application (Some seeker_S) 7 ''REJECTED'' False db_market))) = Some REJECTED"
proof -
  have a7: "Application_findById 7 db_market
              = Some \<lparr>a_id = 7, a_postId = 6, a_providerId = 1,
                      a_message = ''I draw logos every day'', a_status = ACCEPTED\<rparr>"
    by (simp add: Application_findById_def db_market_def)
  have p6: "ServicePost_findById 6 db_market
              = Some \<lparr>p_id = 6, p_userId = 0, p_title = ''Design a logo'', p_status = CLOSED\<rparr>"
    by (simp add: ServicePost_findById_def db_market_def)
  have st: "parse_app_status ''REJECTED'' = Some REJECTED"
    by (simp add: parse_app_status_def)
  show ?thesis
    using status_update_overwrites [of "Some seeker_S" 7 db_market "''REJECTED''" False] a7 p6 st
    by (simp add: seeker_S_def)
qed

text \<open>
  After the end-to-end scenario application 3 is accepted. A status update rejects it, and
  the next one accepts it again.
\<close>

theorem unaccept_counterexample:
  "map_option a_status (Application_findById 3 (run scenario empty_db)) = Some ACCEPTED
   \<and> status (fst (PATCH_application (Some seeker_S) 3 ''REJECTED'' True (run scenario empty_db)))
       = 200
   \<and> map_option a_status (Application_findById 3
        (run (scenario @ [UpdateStatus (Some seeker_S) 3 ''REJECTED'' True]) empty_db))
       = Some REJECTED
   \<and> map_option a_status (Application_findById 3
        (run (scenario @ [UpdateStatus (Some seeker_S) 3 ''REJECTED'' True,
                          UpdateStatus (Some seeker_S) 3 ''ACCEPTED'' True]) empty_db))
       = Some ACCEPTED"
  by (simp add: scenario_def empty_db_def handler_defs eval_defs floor_eq_iff)

subsection \<open>Withdrawing an application\<close>

text \<open>
  C7. For a provider's session, withdrawal answers 404 when no application has the id,
  403 when the application belongs to another provider, 400 when it is the provider's own
  but no longer \<^verbatim>\<open>PENDING\<close>, each time leaving the database as it was; it succeeds
  exactly when the application exists, is the provider's own and is \<^verbatim>\<open>PENDING\<close>, and
  then the application is gone from the collection and nothing else changes.
\<close>

theorem withdraw_outcomes:
  assumes "role se = ''PROVIDER''"
  shows "(Application_findById i s = None \<longrightarrow>
            DELETE_application (Some se) i s = (json 404 (Error ''Application not found''), s))
       \<and> (\<forall>a. Application_findById i s = Some a \<and> a_providerId a \<noteq> userId se \<longrightarrow>
            DELETE_application (Some se) i s
              = (json 403 (Error ''Forbidden: not your application''), s))
       \<and> (\<forall>a. Application_findById i s = Some a \<and> a_providerId a = userId se
               \<and> a_status a \<noteq> PENDING \<longrightarrow>
            DELETE_application (Some se) i s
              = (json 400 (Error ''Only pending applications can be withdrawn''), s))
       \<and> (\<forall>a. Application_findById i s = Some a \<and> a_providerId a = userId se
               \<and> a_status a = PENDING \<longrightarrow>
            status (fst (DELETE_application (Some se) i s)) = 200
            \<and> snd (DELETE_application (Some se) i s)
                = s\<lparr>applications := filter (\<lambda>b. a_id b \<noteq> i) (applications s)\<rparr>
            \<and> Application_findById i (snd (DELETE_application (Some se) i s)) = None)
       \<and> (status (fst (DELETE_application (Some se) i s)) = 200 \<longleftrightarrow>
            (\<exists>a. Application_findById i s = Some a \<and> a_providerId a = userId se
                 \<and> a_status a = PENDING))"
  using assms
  by (auto simp: DELETE_application_def json_def Application_findByIdAndDelete_def
        Application_findById_def find_filter_None split: option.splits)

theorem withdraw_outcomes_witness:
  "DELETE_application (Some provider_B) 4 db_market
     = (json 404 (Error ''Application not found''), db_market)
   \<and> DELETE_application (Some provider_B) 8 db_market
       = (json 403 (Error ''Forbidden: not your application''), db_market)
   \<and> DELETE_application (Some provider_B) 7 db_market
       = (json 400 (Error ''Only pending applications can be withdrawn''), db_market)
   \<and> status (fst (DELETE_application (Some provider_B) 3 db_market)) = 200
   \<and> map a_id (applications (snd (DELETE_application (Some provider_B) 3 db_market))) = [7, 8]"
proof -
  have r: "role provider_B = ''PROVIDER''"
    by (simp add: provider_B_def)
  have n: "Application_findById 4 db_market = None"
    by (simp add: Application_findById_def db_market_def)
  have a8: "Application_findById 8 db_market
              = Some \<lparr>a_id = 8, a_postId = 6, a_providerId = 5,
                      a_message = ''Logos are my speciality'', a_status = PENDING\<rparr>"
    by (simp add: Application_findById_def db_market_def)
  have a7: "Application_findById 7 db_market
              = Some \<lparr>a_id = 7, a_postId = 6, a_providerId = 1,
                      a_message = ''I draw logos every day'', a_status = ACCEPTED\<rparr>"
    by (simp add: Application_findById_def db_market_def)
  have a3: "Application_findById 3 db_market
              = Some \<lparr>a_id = 3, a_postId = 2, a_providerId = 1,
                      a_message = ''I have 5 years experience in this field'',
                      a_status = PENDING\<rparr>"
    by (simp add: Application_findById_def db_market_def)
  show ?thesis
    using withdraw_outcomes [OF r, of 4 db_market] withdraw_outcomes [OF r, of 8 db_market]
      withdraw_outcomes [OF r, of 7 db_market] withdraw_outcomes [OF r, of 3 db_market]
      n a8 a7 a3
    by (simp add: provider_B_def db_market_def)
qed

subsection \<open>The notification sink\<close>

lemma business_state_createNotification [simp]:
  "business_state (createNotification ok n s) = business_state s"
  by (simp add: business_state_def)

lemma POST_applications_sink:
  "fst (POST_applications_race env sess b True s) = fst (POST_applications_race env sess b False s)
   \<and> business_state (snd (POST_applications_race env sess b True s))
       = business_state (snd (POST_applications_race env sess b False s))"
  by (auto simp: POST_applications_race_def split: option.splits sum.splits mongo_error.splits prod.splits)

lemma PATCH_application_sink:
  "fst (PATCH_application sess i v True s) = fst (PATCH_application sess i v False s)
   \<and> business_state (snd (PATCH_application sess i v True s))
       = business_state (snd (PATCH_application sess i v False s))"
  by (simp add: PATCH_application_def Let_def split: option.splits)

lemma POST_reviews_sink:
  "fst (POST_reviews_race env sess b True s) = fst (POST_reviews_race env sess b False s)
   \<and> business_state (snd (POST_reviews_race env sess b True s))
       = business_state (snd (POST_reviews_race env sess b False s))"
  by (auto simp: POST_reviews_race_def Let_def split: option.splits sum.splits mongo_error.splits prod.splits)

text \<open>
  C9. Applying, deciding an application and creating a review answer with the same
  response and persist the same posts, applications, reviews and users whether the
  notification write succeeds or throws.
\<close>

theorem notification_failure_swallowed:
  "fst (POST_applications sess ab True s) = fst (POST_applications sess ab False s)
   \<and> business_state (snd (POST_applications sess ab True s))
       = business_state (snd (POST_applications sess ab False s))
   \<and> fst (PATCH_application sess i v True s) = fst (PATCH_application sess i v False s)
   \<and> business_state (snd (PATCH_application sess i v True s))
       = business_state (snd (PATCH_application sess i v False s))
   \<and> fst (POST_reviews sess rb True s) = fst (POST_reviews sess rb False s)
   \<and> business_state (snd (POST_reviews sess rb True s))
       = business_state (snd (POST_reviews sess rb False s))"
  using POST_applications_sink [of "\<lambda>s. s" sess ab s] PATCH_application_sink [of sess i v s]
    POST_reviews_sink [of "\<lambda>s. s" sess rb s]
  by (simp add: POST_applications_def POST_reviews_def)

theorem notification_failure_swallowed_witness:
  "fst (POST_applications (Some provider_C)
         \<lparr>b_postId = 2, b_message = ''I can start on Monday''\<rparr> False db_market)
     = json 201 (ApplicationDoc (Some
         \<lparr>a_id = 9, a_postId = 2, a_providerId = 5, a_message = ''I can start on Monday'',
          a_status = PENDING\<rparr>))
   \<and> map a_id (applications (snd (POST_applications (Some provider_C)
         \<lparr>b_postId = 2, b_message = ''I can start on Monday''\<rparr> False db_market))) = [3, 7, 8, 9]
   \<and> notifications (snd (POST_applications (Some provider_C)
         \<lparr>b_postId = 2, b_message = ''I can start on Monday''\<rparr> False db_market)) = []
   \<and> length (notifications (snd (POST_applications (Some provider_C)
         \<lparr>b_postId = 2, b_message = ''I can start on Monday''\<rparr> True db_market))) = 1"
proof -
  let ?b = "\<lparr>b_postId = 2, b_message = ''I can start on Monday''\<rparr>"
  have t: "fst (POST_applications (Some provider_C) ?b True db_market)
     = json 201 (ApplicationDoc (Some
         \<lparr>a_id = 9, a_postId = 2, a_providerId = 5, a_message = ''I can start on Monday'',
          a_status = PENDING\<rparr>))"
    "map a_id (applications (snd (POST_applications (Some provider_C) ?b True db_market)))
       = [3, 7, 8, 9]"
    "length (notifications (snd (POST_applications (Some provider_C) ?b True db_market))) = 1"
    by (simp_all add: POST_applications_def POST_applications_race_def db_market_def eval_defs)
  have f: "notifications (snd (POST_applications (Some provider_C) ?b False db_market)) = []"
    by (simp add: POST_applications_def POST_applications_race_def db_market_def eval_defs)
  show ?thesis
    using notification_failure_swallowed [of "Some provider_C" ?b db_market] t f
    by (simp add: business_state_def)
qed

subsection \<open>Creating a review\<close>

lemma Review_aggregate_ratings:
  "Review_aggregate prov s
     = (if ratings_of prov s = [] then None
        else Some (arithmetic_mean (ratings_of prov s), length (ratings_of prov s)))"
  by (simp add: Review_aggregate_def ratings_of_def arithmetic_mean_def Let_def)

lemma Math_round_tenths: "rounded_to_one_decimal x (of_int (Math_round (x * 10)) / 10)"
proof -
  define k where "k = \<lfloor>x * 10 + 1 / 2\<rfloor>"
  have lo: "of_int k \<le> x * 10 + 1 / 2"
    unfolding k_def by (rule of_int_floor_le)
  have hi: "x * 10 + 1 / 2 < of_int k + 1"
    unfolding k_def using floor_correct [of "x * 10 + 1 / 2"] by simp
  have "\<bar>of_int k / 10 - x\<bar> \<le> 1 / 20"
    using lo hi unfolding abs_le_iff by (auto simp: field_simps)
  then show ?thesis
    unfolding rounded_to_one_decimal_def Math_round_def k_def [symmetric] by blast
qed

lemma ratings_of_User_findByIdAndUpdate [simp]:
  "ratings_of prov (User_findByIdAndUpdate i avg cnt s) = ratings_of prov s"
  by (simp add: ratings_of_def User_findByIdAndUpdate_def)

lemma ratings_of_createNotification [simp]:
  "ratings_of prov (createNotification ok n s) = ratings_of prov s"
  by (simp add: ratings_of_def)

text \<open>The aggregator's write makes the projection hold for the provider's record.\<close>

lemma projection_after_update:
  assumes "u \<in> set (users (User_findByIdAndUpdate prov
                  (case Review_aggregate prov s of None \<Rightarrow> 0
                   | Some (avg, count) \<Rightarrow> of_int (Math_round (avg * 10)) / 10)
                  (case Review_aggregate prov s of None \<Rightarrow> 0 | Some (avg, count) \<Rightarrow> count) s))"
    and "u_id u = prov"
  shows "rating_projection (ratings_of prov s) u"
proof -
  define A :: rat where "A = (case Review_aggregate prov s of None \<Rightarrow> 0
                       | Some (avg, count) \<Rightarrow> of_int (Math_round (avg * 10)) / 10)"
  define C :: nat where "C = (case Review_aggregate prov s of None \<Rightarrow> 0 | Some (avg, count) \<Rightarrow> count)"
  have "u \<in> (\<lambda>x. if u_id x = prov then x\<lparr>averageRating := A, reviewCount := C\<rparr> else x)
               ` set (users s)"
    using assms(1) unfolding A_def [symmetric] C_def [symmetric]
    by (simp add: users_User_findByIdAndUpdate)
  then obtain x where x: "u = (if u_id x = prov then x\<lparr>averageRating := A, reviewCount := C\<rparr> else x)"
    by blast
  have "u_id x = prov"
    using x assms(2) by (cases "u_id x = prov") simp_all
  then have u: "averageRating u = A" "reviewCount u = C"
    using x by simp_all
  show ?thesis
  proof (cases "ratings_of prov s = []")
    case True
    then show ?thesis
      using u by (simp add: rating_projection_def A_def C_def Review_aggregate_ratings)
  next
    case False
    have A: "A = of_int (Math_round (arithmetic_mean (ratings_of prov s) * 10)) / 10"
      and C: "C = length (ratings_of prov s)"
      using False by (simp_all add: A_def C_def Review_aggregate_ratings)
    have "rounded_to_one_decimal (arithmetic_mean (ratings_of prov s)) (averageRating u)"
      unfolding u(1) A by (rule Math_round_tenths)
    moreover have "reviewCount u = length (ratings_of prov s)"
      using u(2) C by simp
    ultimately show ?thesis
      using False by (simp add: rating_projection_def)
  qed
qed

lemma Review_create_ok:
  assumes "1 \<le> rating" "rating \<le> 5"
    and "case comment of None \<Rightarrow> True | Some c \<Rightarrow> length c \<le> 500"
    and "Review_findOne aid s = None"
  shows "Review_create seeker prov aid rating comment s
           = Inr (\<lparr>r_id = next_oid s, r_seekerId = seeker, r_providerId = prov,
                   r_applicationId = aid, r_rating = rating, r_comment = map_option trim comment\<rparr>,
                  s\<lparr>reviews := reviews s @
                      [\<lparr>r_id = next_oid s, r_seekerId = seeker, r_providerId = prov,
                        r_applicationId = aid, r_rating = rating,
                        r_comment = map_option trim comment\<rparr>],
                    next_oid := Suc (next_oid s)\<rparr>)"
proof -
  have c: "\<not> (case map_option trim comment of None \<Rightarrow> False | Some t \<Rightarrow> 500 < length t)"
  proof (cases comment)
    case None
    then show ?thesis by simp
  next
    case (Some c)
    then show ?thesis
      using assms(3) length_trim_le [of c] by simp
  qed
  show ?thesis
    using assms(1,2,4) c
    by (simp add: Review_create_def Let_def Review_findOne_def find_None_list_ex)
qed

lemma POST_reviews_created:
  assumes "role se = ''SEEKER''"
    and "1 \<le> b_rating b" "b_rating b \<le> 5"
    and "case b_comment b of None \<Rightarrow> True | Some c \<Rightarrow> length c \<le> 500"
    and "Application_findById (b_applicationId b) s = Some a" "a_status a = ACCEPTED"
    and "ServicePost_findById (a_postId a) s = Some p" "p_userId p = userId se"
    and "Review_findOne (b_applicationId b) s = None"
  shows "fst (POST_reviews (Some se) b ok s) = json 201 (ReviewDoc (new_review se a b s))"
    and "reviews (snd (POST_reviews (Some se) b ok s)) = reviews s @ [new_review se a b s]"
    and "users (snd (POST_reviews (Some se) b ok s))
           = map (\<lambda>u. if u_id u = a_providerId a
                       then u\<lparr>averageRating :=
                                of_int (Math_round
                                  (arithmetic_mean (ratings_of (a_providerId a) s @ [b_rating b]) * 10))
                                / 10,
                              reviewCount := Suc (length (ratings_of (a_providerId a) s))\<rparr>
                       else u) (users s)"
    and "posts (snd (POST_reviews (Some se) b ok s)) = posts s"
    and "applications (snd (POST_reviews (Some se) b ok s)) = applications s"
proof -
  define s1 where "s1 = s\<lparr>reviews := reviews s @ [new_review se a b s],
                          next_oid := Suc (next_oid s)\<rparr>"
  have cr: "Review_create (userId se) (a_providerId a) (b_applicationId b) (b_rating b)
              (b_comment b) s = Inr (new_review se a b s, s1)"
    using Review_create_ok [OF assms(2,3,4) assms(9)] by (simp add: new_review_def s1_def)
  have rs: "ratings_of (a_providerId a) s1 = ratings_of (a_providerId a) s @ [b_rating b]"
    by (simp add: ratings_of_def s1_def new_review_def)
  have ag: "Review_aggregate (a_providerId a) s1
              = Some (arithmetic_mean (ratings_of (a_providerId a) s @ [b_rating b]),
                      Suc (length (ratings_of (a_providerId a) s)))"
    by (simp add: Review_aggregate_ratings rs)
  have v: "\<not> (b_rating b < 1 \<or> 5 < b_rating b
              \<or> (case b_comment b of None \<Rightarrow> False | Some c \<Rightarrow> 500 < length c))"
    using assms(2,3,4) by (cases "b_comment b") auto
  have e: "POST_reviews (Some se) b ok s
        = (json 201 (ReviewDoc (new_review se a b s)),
           createNotification ok
             \<lparr>n_userId = a_providerId a, n_type = NEW_REVIEW,
              n_title = ''You received a new review'',
              n_message =
                (case User_findById (userId se)
                        (User_findByIdAndUpdate (a_providerId a)
                          (of_int (Math_round
                            (arithmetic_mean (ratings_of (a_providerId a) s @ [b_rating b]) * 10)) / 10)
                          (Suc (length (ratings_of (a_providerId a) s))) s1) of
                   None \<Rightarrow> ''A seeker'' | Some seeker \<Rightarrow> u_name seeker)
                @ '' left you a '' @ rating_digit (b_rating b) @ ''-star review.'',
              n_link = ''/dashboard/provider'', n_read = False\<rparr>
             (User_findByIdAndUpdate (a_providerId a)
                (of_int (Math_round
                  (arithmetic_mean (ratings_of (a_providerId a) s @ [b_rating b]) * 10)) / 10)
                (Suc (length (ratings_of (a_providerId a) s))) s1))"
    unfolding POST_reviews_def POST_reviews_race_def
    using assms(1,5,6,7,8,9) v cr ag by (simp add: Let_def)
  show "fst (POST_reviews (Some se) b ok s) = json 201 (ReviewDoc (new_review se a b s))"
    unfolding e by simp
  show "reviews (snd (POST_reviews (Some se) b ok s)) = reviews s @ [new_review se a b s]"
    unfolding e by (simp add: users_User_findByIdAndUpdate s1_def)
  show "users (snd (POST_reviews (Some se) b ok s))
           = map (\<lambda>u. if u_id u = a_providerId a
                       then u\<lparr>averageRating :=
                                of_int (Math_round
                                  (arithmetic_mean (ratings_of (a_providerId a) s @ [b_rating b]) * 10))
                                / 10,
                              reviewCount := Suc (length (ratings_of (a_providerId a) s))\<rparr>
                       else u) (users s)"
    unfolding e by (simp add: users_User_findByIdAndUpdate s1_def)
  show "posts (snd (POST_reviews (Some se) b ok s)) = posts s"
    unfolding e by (simp add: users_User_findByIdAndUpdate s1_def)
  show "applications (snd (POST_reviews (Some se) b ok s)) = applications s"
    unfolding e by (simp add: users_User_findByIdAndUpdate s1_def)
qed

lemma POST_reviews_201:
  assumes "status (fst (POST_reviews sess b ok s)) = 201"
  shows "\<exists>se a p. sess = Some se \<and> role se = ''SEEKER'' \<and> 1 \<le> b_rating b \<and> b_rating b \<le> 5
           \<and> (case b_comment b of None \<Rightarrow> True | Some c \<Rightarrow> length c \<le> 500)
           \<and> Application_findById (b_applicationId b) s = Some a \<and> a_status a = ACCEPTED
           \<and> ServicePost_findById (a_postId a) s = Some p \<and> p_userId p = userId se
           \<and> Review_findOne (b_applicationId b) s = None"
proof (cases sess)
  case None
  then show ?thesis using assms by (simp add: POST_reviews_def POST_reviews_race_def)
next
  case (Some se)
  have v: "role se = ''SEEKER''" "1 \<le> b_rating b" "b_rating b \<le> 5"
    "case b_comment b of None \<Rightarrow> True | Some c \<Rightarrow> length c \<le> 500"
    using assms Some
    by (auto simp: POST_reviews_def POST_reviews_race_def split: if_splits option.splits)
  then have v': "\<not> (b_rating b < 1 \<or> 5 < b_rating b
              \<or> (case b_comment b of None \<Rightarrow> False | Some c \<Rightarrow> 500 < length c))"
    by (cases "b_comment b") auto
  show ?thesis
  proof (cases "Application_findById (b_applicationId b) s")
    case None
    then show ?thesis
      using assms Some v(1) v' by (simp add: POST_reviews_def POST_reviews_race_def)
  next
    case a: (Some a)
    show ?thesis
    proof (cases "ServicePost_findById (a_postId a) s")
      case None
      then show ?thesis
        using assms Some v(1) v' a
        by (cases "a_status a = ACCEPTED") (simp_all add: POST_reviews_def POST_reviews_race_def)
    next
      case p: (Some p)
      have "a_status a = ACCEPTED \<and> p_userId p = userId se
              \<and> Review_findOne (b_applicationId b) s = None"
        using assms Some v(1) v' a p
        by (cases "a_status a = ACCEPTED"; cases "p_userId p = userId se";
            cases "Review_findOne (b_applicationId b) s")
           (simp_all add: POST_reviews_def POST_reviews_race_def)
      then show ?thesis
        using Some v a p by simp
    qed
  qed
qed

lemma DELETE_review_success:
  assumes "status (fst (DELETE_review sess i s)) = 200"
  shows "\<exists>se rv. sess = Some se \<and> Review_findById i s = Some rv \<and> r_seekerId rv = userId se
           \<and> snd (DELETE_review sess i s)
               = User_findByIdAndUpdate (r_providerId rv)
                   (case Review_aggregate (r_providerId rv) (Review_findByIdAndDelete i s) of
                      None \<Rightarrow> 0 | Some (avg, count) \<Rightarrow> of_int (Math_round (avg * 10)) / 10)
                   (case Review_aggregate (r_providerId rv) (Review_findByIdAndDelete i s) of
                      None \<Rightarrow> 0 | Some (avg, count) \<Rightarrow> count)
                   (Review_findByIdAndDelete i s)"
proof (cases sess)
  case None
  then show ?thesis using assms by (simp add: DELETE_review_def)
next
  case (Some se)
  show ?thesis
  proof (cases "Review_findById i s")
    case None
    then show ?thesis using assms Some by (simp add: DELETE_review_def)
  next
    case rv: (Some rv)
    then show ?thesis
      using assms Some
      by (cases "r_seekerId rv = userId se") (simp_all add: DELETE_review_def Let_def)
  qed
qed

lemma db_reviews4_eval:
  "reviews db_reviews4 = reviews db_reviews @
     [\<lparr>r_id = 40, r_seekerId = 0, r_providerId = 1, r_applicationId = 23, r_rating = 3,
       r_comment = None\<rparr>]"
  "users db_reviews4 = [\<lparr>u_id = 0, u_name = ''Seeker S'', u_role = ''SEEKER'',
                averageRating = 0, reviewCount = 0\<rparr>,
               \<lparr>u_id = 1, u_name = ''Provider X'', u_role = ''PROVIDER'',
                averageRating = 43 / 10, reviewCount = 4\<rparr>]"
  by (simp_all add: db_reviews4_def POST_reviews_def POST_reviews_race_def db_reviews_def eval_defs)

lemma db_reviews3_eval:
  "reviews db_reviews3 = reviews db_reviews"
  "users db_reviews3 = users db_reviews"
  by (simp_all add: db_reviews3_def DELETE_review_def db_reviews4_eval db_reviews_def eval_defs
        floor_eq_iff)

lemma db_reviews0_eval:
  "reviews db_reviews0 = []"
  "users db_reviews0 = [\<lparr>u_id = 0, u_name = ''Seeker S'', u_role = ''SEEKER'',
                averageRating = 0, reviewCount = 0\<rparr>,
               \<lparr>u_id = 1, u_name = ''Provider X'', u_role = ''PROVIDER'',
                averageRating = 0, reviewCount = 0\<rparr>]"
  by (simp_all add: db_reviews0_def DELETE_review_def db_reviews3_eval db_reviews_def eval_defs)

lemma rating_examples:
  "ratings_of 1 db_reviews4 = [5, 5, 4, 3] \<and> stored_rating 1 db_reviews4 = [(43 / 10, 4)]
   \<and> ratings_of 1 db_reviews3 = [5, 5, 4] \<and> stored_rating 1 db_reviews3 = [(47 / 10, 3)]
   \<and> ratings_of 1 db_reviews0 = [] \<and> stored_rating 1 db_reviews0 = [(0, 0)]"
  by (simp add: ratings_of_def stored_rating_def db_reviews4_eval db_reviews3_eval db_reviews0_eval)
     (simp add: db_reviews_def)

text \<open>
  C5. For a seeker's session and a rating of 1 to 5 with a comment of at most 500
  characters, the checks run in this order: no such application, 404; application not
  \<^verbatim>\<open>ACCEPTED\<close>, 400; the session's identity not the owner of the application's post
  (or no such post), 403; a review for the application already there, 409; each time the
  database is left as it was. When the review appears between the look-up and the insert,
  the unique index raises the duplicate-key error and the answer is 409 as well.
  Otherwise the response is 201 with the new review, which is appended to the collection,
  and the provider's record gets the rounded mean and the count of the provider's
  reviews, the new one included.
\<close>

theorem review_create_outcomes:
  assumes "role se = ''SEEKER''"
    and "1 \<le> b_rating b" and "b_rating b \<le> 5"
    and "case b_comment b of None \<Rightarrow> True | Some c \<Rightarrow> length c \<le> 500"
  shows
    "(Application_findById (b_applicationId b) s = None \<longrightarrow>
        POST_reviews (Some se) b ok s = (json 404 (Error ''Application not found''), s))
   \<and> (\<forall>a. Application_findById (b_applicationId b) s = Some a \<and> a_status a \<noteq> ACCEPTED \<longrightarrow>
        POST_reviews (Some se) b ok s
          = (json 400 (Error ''Can only review accepted applications''), s))
   \<and> (\<forall>a. Application_findById (b_applicationId b) s = Some a \<and> a_status a = ACCEPTED
           \<and> (\<forall>p. ServicePost_findById (a_postId a) s = Some p \<longrightarrow> p_userId p \<noteq> userId se) \<longrightarrow>
        POST_reviews (Some se) b ok s = (json 403 (Error ''Forbidden''), s))
   \<and> (\<forall>a p r. Application_findById (b_applicationId b) s = Some a \<and> a_status a = ACCEPTED
           \<and> ServicePost_findById (a_postId a) s = Some p \<and> p_userId p = userId se
           \<and> Review_findOne (b_applicationId b) s = Some r \<longrightarrow>
        POST_reviews (Some se) b ok s
          = (json 409 (Error ''Review already submitted for this application''), s))
   \<and> (\<forall>a p r env. Application_findById (b_applicationId b) s = Some a \<and> a_status a = ACCEPTED
           \<and> ServicePost_findById (a_postId a) s = Some p \<and> p_userId p = userId se
           \<and> Review_findOne (b_applicationId b) s = None
           \<and> Review_findOne (b_applicationId b) (env s) = Some r \<longrightarrow>
        POST_reviews_race env (Some se) b ok s
          = (json 409 (Error ''Review already submitted''), env s))
   \<and> (\<forall>a p. Application_findById (b_applicationId b) s = Some a \<and> a_status a = ACCEPTED
           \<and> ServicePost_findById (a_postId a) s = Some p \<and> p_userId p = userId se
           \<and> Review_findOne (b_applicationId b) s = None \<longrightarrow>
        fst (POST_reviews (Some se) b ok s) = json 201 (ReviewDoc (new_review se a b s))
        \<and> reviews (snd (POST_reviews (Some se) b ok s)) = reviews s @ [new_review se a b s]
        \<and> users (snd (POST_reviews (Some se) b ok s))
            = map (\<lambda>u. if u_id u = a_providerId a
                        then u\<lparr>averageRating :=
                                 of_int (Math_round
                                   (arithmetic_mean (ratings_of (a_providerId a) s @ [b_rating b])
                                    * 10)) / 10,
                               reviewCount := Suc (length (ratings_of (a_providerId a) s))\<rparr>
                        else u) (users s))"
proof -
  have v: "\<not> (b_rating b < 1 \<or> 5 < b_rating b
              \<or> (case b_comment b of None \<Rightarrow> False | Some c \<Rightarrow> 500 < length c))"
    using assms(2,3,4) by (cases "b_comment b") auto
  have c: "\<not> (case map_option trim (b_comment b) of None \<Rightarrow> False | Some t \<Rightarrow> 500 < length t)"
  proof (cases "b_comment b")
    case None
    then show ?thesis by simp
  next
    case (Some c)
    then show ?thesis
      using assms(4) length_trim_le [of c] by simp
  qed
  have early:
    "(Application_findById (b_applicationId b) s = None \<longrightarrow>
        POST_reviews (Some se) b ok s = (json 404 (Error ''Application not found''), s))
   \<and> (\<forall>a. Application_findById (b_applicationId b) s = Some a \<and> a_status a \<noteq> ACCEPTED \<longrightarrow>
        POST_reviews (Some se) b ok s
          = (json 400 (Error ''Can only review accepted applications''), s))
   \<and> (\<forall>a. Application_findById (b_applicationId b) s = Some a \<and> a_status a = ACCEPTED
           \<and> (\<forall>p. ServicePost_findById (a_postId a) s = Some p \<longrightarrow> p_userId p \<noteq> userId se) \<longrightarrow>
        POST_reviews (Some se) b ok s = (json 403 (Error ''Forbidden''), s))
   \<and> (\<forall>a p r. Application_findById (b_applicationId b) s = Some a \<and> a_status a = ACCEPTED
           \<and> ServicePost_findById (a_postId a) s = Some p \<and> p_userId p = userId se
           \<and> Review_findOne (b_applicationId b) s = Some r \<longrightarrow>
        POST_reviews (Some se) b ok s
          = (json 409 (Error ''Review already submitted for this application''), s))"
    using assms(1) v
    by (auto simp: POST_reviews_def POST_reviews_race_def split: option.splits)
  have race: "POST_reviews_race env (Some se) b ok s
          = (json 409 (Error ''Review already submitted''), env s)"
    if "Application_findById (b_applicationId b) s = Some a \<and> a_status a = ACCEPTED
           \<and> ServicePost_findById (a_postId a) s = Some p \<and> p_userId p = userId se
           \<and> Review_findOne (b_applicationId b) s = None
           \<and> Review_findOne (b_applicationId b) (env s) = Some r" for a p r env
  proof -
    have "list_ex (\<lambda>r. r_applicationId r = b_applicationId b) (reviews (env s))"
      using that find_None_list_ex [of "\<lambda>r. r_applicationId r = b_applicationId b" "reviews (env s)"]
      by (simp add: Review_findOne_def)
    then have "Review_create (userId se) (a_providerId a) (b_applicationId b) (b_rating b)
                 (b_comment b) (env s) = Inl DuplicateKey"
      using assms(2,3) c by (simp add: Review_create_def Let_def)
    then show ?thesis
      using that assms(1) v by (simp add: POST_reviews_race_def)
  qed
  have created: "fst (POST_reviews (Some se) b ok s) = json 201 (ReviewDoc (new_review se a b s))
        \<and> reviews (snd (POST_reviews (Some se) b ok s)) = reviews s @ [new_review se a b s]
        \<and> users (snd (POST_reviews (Some se) b ok s))
            = map (\<lambda>u. if u_id u = a_providerId a
                        then u\<lparr>averageRating :=
                                 of_int (Math_round
                                   (arithmetic_mean (ratings_of (a_providerId a) s @ [b_rating b])
                                    * 10)) / 10,
                               reviewCount := Suc (length (ratings_of (a_providerId a) s))\<rparr>
                        else u) (users s)"
    if "Application_findById (b_applicationId b) s = Some a \<and> a_status a = ACCEPTED
           \<and> ServicePost_findById (a_postId a) s = Some p \<and> p_userId p = userId se
           \<and> Review_findOne (b_applicationId b) s = None" for a p
    using POST_reviews_created [OF assms, of s a p ok] that by simp
  show ?thesis
    using early race created by blast
qed

theorem review_create_outcomes_witness:
  "POST_reviews (Some seeker_S) \<lparr>b_applicationId = 99, b_rating = 3, b_comment = None\<rparr> True
      db_reviews = (json 404 (Error ''Application not found''), db_reviews)
   \<and> POST_reviews (Some seeker_S) \<lparr>b_applicationId = 3, b_rating = 3, b_comment = None\<rparr> True
        db_market = (json 400 (Error ''Can only review accepted applications''), db_market)
   \<and> POST_reviews (Some \<lparr>userId = 9, role = ''SEEKER''\<rparr>)
        \<lparr>b_applicationId = 23, b_rating = 3, b_comment = None\<rparr> True db_reviews
       = (json 403 (Error ''Forbidden''), db_reviews)
   \<and> POST_reviews (Some seeker_S) \<lparr>b_applicationId = 20, b_rating = 3, b_comment = None\<rparr> True
        db_reviews
       = (json 409 (Error ''Review already submitted for this application''), db_reviews)
   \<and> POST_reviews_race (\<lambda>s. db_reviews4) (Some seeker_S)
        \<lparr>b_applicationId = 23, b_rating = 3, b_comment = None\<rparr> True db_reviews
       = (json 409 (Error ''Review already submitted''), db_reviews4)
   \<and> fst (POST_reviews (Some seeker_S) \<lparr>b_applicationId = 23, b_rating = 3, b_comment = None\<rparr>
        True db_reviews)
       = json 201 (ReviewDoc \<lparr>r_id = 40, r_seekerId = 0, r_providerId = 1, r_applicationId = 23,
                               r_rating = 3, r_comment = None\<rparr>)
   \<and> stored_rating 1 (snd (POST_reviews (Some seeker_S)
        \<lparr>b_applicationId = 23, b_rating = 3, b_comment = None\<rparr> True db_reviews))
       = [(43 / 10, 4)]
   \<and> fst (POST_reviews (Some seeker_S)
        \<lparr>b_applicationId = 23, b_rating = 3,
         b_comment = Some (CHR 0xA0 # ''Great work'' @ [CHR 0xA0])\<rparr> True db_reviews)
       = json 201 (ReviewDoc \<lparr>r_id = 40, r_seekerId = 0, r_providerId = 1, r_applicationId = 23,
                               r_rating = 3, r_comment = Some ''Great work''\<rparr>)"
proof -
  let ?b = "\<lambda>i. \<lparr>b_applicationId = i, b_rating = 3, b_comment = None\<rparr>"
  have r: "role seeker_S = ''SEEKER''" "role \<lparr>userId = 9, role = ''SEEKER''\<rparr> = ''SEEKER''"
    by (simp_all add: seeker_S_def)
  have a99: "Application_findById 99 db_reviews = None"
    by (simp add: Application_findById_def db_reviews_def)
  have a3: "Application_findById 3 db_market
              = Some \<lparr>a_id = 3, a_postId = 2, a_providerId = 1,
                      a_message = ''I have 5 years experience in this field'',
                      a_status = PENDING\<rparr>"
    by (simp add: Application_findById_def db_market_def)
  have a23: "Application_findById 23 db_reviews
              = Some \<lparr>a_id = 23, a_postId = 13, a_providerId = 1,
                      a_message = ''I tune databases every day'', a_status = ACCEPTED\<rparr>"
    by (simp add: Application_findById_def db_reviews_def)
  have a20: "Application_findById 20 db_reviews
              = Some \<lparr>a_id = 20, a_postId = 10, a_providerId = 1,
                      a_message = ''I build sites every day'', a_status = ACCEPTED\<rparr>"
    by (simp add: Application_findById_def db_reviews_def)
  have p13: "ServicePost_findById 13 db_reviews
              = Some \<lparr>p_id = 13, p_userId = 0, p_title = ''Tune the database'',
                      p_status = CLOSED\<rparr>"
    by (simp add: ServicePost_findById_def db_reviews_def)
  have p10: "ServicePost_findById 10 db_reviews
              = Some \<lparr>p_id = 10, p_userId = 0, p_title = ''Build a site'', p_status = CLOSED\<rparr>"
    by (simp add: ServicePost_findById_def db_reviews_def)
  have r20: "Review_findOne 20 db_reviews
              = Some \<lparr>r_id = 30, r_seekerId = 0, r_providerId = 1, r_applicationId = 20,
                      r_rating = 5, r_comment = Some ''Great work''\<rparr>"
    by (simp add: Review_findOne_def db_reviews_def)
  have r23: "Review_findOne 23 db_reviews = None"
    by (simp add: Review_findOne_def db_reviews_def)
  have r23': "Review_findOne 23 db_reviews4
              = Some \<lparr>r_id = 40, r_seekerId = 0, r_providerId = 1, r_applicationId = 23,
                      r_rating = 3, r_comment = None\<rparr>"
    by (simp add: Review_findOne_def db_reviews4_eval db_reviews_def)
  have rs: "ratings_of 1 db_reviews = [5, 5, 4]"
    by (simp add: ratings_of_def db_reviews_def)
  have w1: "POST_reviews (Some seeker_S) (?b 99) True db_reviews
              = (json 404 (Error ''Application not found''), db_reviews)"
    using review_create_outcomes [OF r(1), of "?b 99" db_reviews True] a99 by simp
  have w2: "POST_reviews (Some seeker_S) (?b 3) True db_market
              = (json 400 (Error ''Can only review accepted applications''), db_market)"
    using review_create_outcomes [OF r(1), of "?b 3" db_market True] a3 by simp
  have w3: "POST_reviews (Some \<lparr>userId = 9, role = ''SEEKER''\<rparr>) (?b 23) True db_reviews
              = (json 403 (Error ''Forbidden''), db_reviews)"
    using review_create_outcomes [OF r(2), of "?b 23" db_reviews True] a23 p13 by simp
  have w4: "POST_reviews (Some seeker_S) (?b 20) True db_reviews
              = (json 409 (Error ''Review already submitted for this application''), db_reviews)"
    using review_create_outcomes [OF r(1), of "?b 20" db_reviews True] a20 p10 r20
    by (simp add: seeker_S_def)
  have w5: "POST_reviews_race (\<lambda>s. db_reviews4) (Some seeker_S) (?b 23) True db_reviews
              = (json 409 (Error ''Review already submitted''), db_reviews4)"
    using review_create_outcomes [OF r(1), of "?b 23" db_reviews True] a23 p13 r23 r23'
    by (simp add: seeker_S_def)
  have w6: "fst (POST_reviews (Some seeker_S) (?b 23) True db_reviews)
              = json 201 (ReviewDoc \<lparr>r_id = 40, r_seekerId = 0, r_providerId = 1,
                                      r_applicationId = 23, r_rating = 3, r_comment = None\<rparr>)
            \<and> stored_rating 1 (snd (POST_reviews (Some seeker_S) (?b 23) True db_reviews))
                = [(43 / 10, 4)]"
    using review_create_outcomes [OF r(1), of "?b 23" db_reviews True] a23 p13 r23 rs
    by (simp add: seeker_S_def new_review_def stored_rating_def arithmetic_mean_def Math_round_def
          db_reviews_def)
  have w7: "fst (POST_reviews (Some seeker_S)
              \<lparr>b_applicationId = 23, b_rating = 3,
               b_comment = Some (CHR 0xA0 # ''Great work'' @ [CHR 0xA0])\<rparr> True db_reviews)
              = json 201 (ReviewDoc \<lparr>r_id = 40, r_seekerId = 0, r_providerId = 1,
                                      r_applicationId = 23, r_rating = 3,
                                      r_comment = Some ''Great work''\<rparr>)"
    using review_create_outcomes [OF r(1),
        of "\<lparr>b_applicationId = 23, b_rating = 3,
             b_comment = Some (CHR 0xA0 # ''Great work'' @ [CHR 0xA0])\<rparr>" db_reviews True]
      a23 p13 r23
    by (simp add: seeker_S_def new_review_def trim_def is_space_def db_reviews_def)
  show ?thesis
    using w1 w2 w3 w4 w5 w6 w7 by simp
qed

subsection \<open>The rating aggregate\<close>

text \<open>
  C6. After a successful review delete and after a successful review create, the record
  of the provider carries the projection of the ratings of the reviews that then name the
  provider: their count, and their mean rounded to one decimal place (0 when none is
  left). Ratings 5, 5, 4, 3 give 4.3 and 4; deleting the review rated 3 gives 4.7 and 3;
  deleting the rest gives 0 and 0.
\<close>

theorem rating_aggregate:
  "(\<forall>rv. status (fst (DELETE_review sess i s)) = 200 \<and> Review_findById i s = Some rv \<longrightarrow>
      (\<forall>u \<in> set (users (snd (DELETE_review sess i s))). u_id u = r_providerId rv \<longrightarrow>
         rating_projection (ratings_of (r_providerId rv) (snd (DELETE_review sess i s))) u))
   \<and> (\<forall>a. status (fst (POST_reviews sess b ok s)) = 201
          \<and> Application_findById (b_applicationId b) s = Some a \<longrightarrow>
      (\<forall>u \<in> set (users (snd (POST_reviews sess b ok s))). u_id u = a_providerId a \<longrightarrow>
         rating_projection (ratings_of (a_providerId a) (snd (POST_reviews sess b ok s))) u))
   \<and> ratings_of 1 db_reviews4 = [5, 5, 4, 3] \<and> stored_rating 1 db_reviews4 = [(43 / 10, 4)]
   \<and> ratings_of 1 db_reviews3 = [5, 5, 4] \<and> stored_rating 1 db_reviews3 = [(47 / 10, 3)]
   \<and> ratings_of 1 db_reviews0 = [] \<and> stored_rating 1 db_reviews0 = [(0, 0)]"
proof -
  have del: "rating_projection (ratings_of (r_providerId rv) (snd (DELETE_review sess i s))) u"
    if h: "status (fst (DELETE_review sess i s)) = 200" "Review_findById i s = Some rv"
      "u \<in> set (users (snd (DELETE_review sess i s)))" "u_id u = r_providerId rv" for rv u
  proof -
    define t where "t = Review_findByIdAndDelete i s"
    have e: "snd (DELETE_review sess i s)
               = User_findByIdAndUpdate (r_providerId rv)
                   (case Review_aggregate (r_providerId rv) t of
                      None \<Rightarrow> 0 | Some (avg, count) \<Rightarrow> of_int (Math_round (avg * 10)) / 10)
                   (case Review_aggregate (r_providerId rv) t of
                      None \<Rightarrow> 0 | Some (avg, count) \<Rightarrow> count) t"
      using DELETE_review_success [OF h(1)] h(2) unfolding t_def by auto
    show ?thesis
      using projection_after_update [of u "r_providerId rv" t] h(3,4) unfolding e by simp
  qed
  have cre: "rating_projection (ratings_of (a_providerId a) (snd (POST_reviews sess b ok s))) u"
    if h: "status (fst (POST_reviews sess b ok s)) = 201"
      "Application_findById (b_applicationId b) s = Some a"
      "u \<in> set (users (snd (POST_reviews sess b ok s)))" "u_id u = a_providerId a" for a u
  proof -
    obtain se p where g: "sess = Some se" "role se = ''SEEKER''" "1 \<le> b_rating b" "b_rating b \<le> 5"
      "case b_comment b of None \<Rightarrow> True | Some c \<Rightarrow> length c \<le> 500"
      "a_status a = ACCEPTED" "ServicePost_findById (a_postId a) s = Some p"
      "p_userId p = userId se" "Review_findOne (b_applicationId b) s = None"
      using POST_reviews_201 [OF h(1)] h(2) by auto
    note c = POST_reviews_created [OF g(2,3,4,5) h(2) g(6,7,8,9), of ok]
    have rs: "ratings_of (a_providerId a) (snd (POST_reviews sess b ok s))
                = ratings_of (a_providerId a) s @ [b_rating b]"
      using c(2) g(1) by (simp add: ratings_of_def new_review_def)
    have "u \<in> (\<lambda>u. if u_id u = a_providerId a
                       then u\<lparr>averageRating :=
                                of_int (Math_round
                                  (arithmetic_mean (ratings_of (a_providerId a) s @ [b_rating b]) * 10))
                                / 10,
                              reviewCount := Suc (length (ratings_of (a_providerId a) s))\<rparr>
                       else u) ` set (users s)"
      using h(3) c(3) g(1) by simp
    then obtain x where x: "u = (if u_id x = a_providerId a
                       then x\<lparr>averageRating :=
                                of_int (Math_round
                                  (arithmetic_mean (ratings_of (a_providerId a) s @ [b_rating b]) * 10))
                                / 10,
                              reviewCount := Suc (length (ratings_of (a_providerId a) s))\<rparr>
                       else x)"
      by blast
    have "u_id x = a_providerId a"
      using x h(4) by (cases "u_id x = a_providerId a") simp_all
    then have u: "averageRating u = of_int (Math_round
                    (arithmetic_mean (ratings_of (a_providerId a) s @ [b_rating b]) * 10)) / 10"
      "reviewCount u = Suc (length (ratings_of (a_providerId a) s))"
      using x by simp_all
    have "rounded_to_one_decimal (arithmetic_mean (ratings_of (a_providerId a) s @ [b_rating b]))
            (averageRating u)"
      unfolding u(1) by (rule Math_round_tenths)
    then show ?thesis
      using u(2) by (simp add: rating_projection_def rs)
  qed
  show ?thesis
    using del cre rating_examples by blast
qed

theorem rating_aggregate_witness:
  "status (fst (DELETE_review (Some seeker_S) 40 db_reviews4)) = 200
   \<and> rating_projection [5, 5, 4]
        \<lparr>u_id = 1, u_name = ''Provider X'', u_role = ''PROVIDER'',
         averageRating = 47 / 10, reviewCount = 3\<rparr>
   \<and> status (fst (POST_reviews (Some seeker_S)
        \<lparr>b_applicationId = 23, b_rating = 3, b_comment = None\<rparr> True db_reviews)) = 201
   \<and> rating_projection [5, 5, 4, 3]
        \<lparr>u_id = 1, u_name = ''Provider X'', u_role = ''PROVIDER'',
         averageRating = 43 / 10, reviewCount = 4\<rparr>"
proof -
  let ?b = "\<lparr>b_applicationId = 23, b_rating = 3, b_comment = None\<rparr>"
  have d: "status (fst (DELETE_review (Some seeker_S) 40 db_reviews4)) = 200"
    by (simp add: DELETE_review_def db_reviews4_eval db_reviews_def eval_defs)
  have rv: "Review_findById 40 db_reviews4
              = Some \<lparr>r_id = 40, r_seekerId = 0, r_providerId = 1, r_applicationId = 23,
                      r_rating = 3, r_comment = None\<rparr>"
    by (simp add: Review_findById_def db_reviews4_eval db_reviews_def)
  have c: "status (fst (POST_reviews (Some seeker_S) ?b True db_reviews)) = 201"
    by (simp add: POST_reviews_def POST_reviews_race_def db_reviews_def eval_defs)
  have a23: "Application_findById 23 db_reviews
              = Some \<lparr>a_id = 23, a_postId = 13, a_providerId = 1,
                      a_message = ''I tune databases every day'', a_status = ACCEPTED\<rparr>"
    by (simp add: Application_findById_def db_reviews_def)
  have r3: "ratings_of 1 db_reviews3 = [5, 5, 4]" and r4: "ratings_of 1 db_reviews4 = [5, 5, 4, 3]"
    using rating_examples by simp_all
  have u3: "users db_reviews3 = [\<lparr>u_id = 0, u_name = ''Seeker S'', u_role = ''SEEKER'',
                averageRating = 0, reviewCount = 0\<rparr>,
               \<lparr>u_id = 1, u_name = ''Provider X'', u_role = ''PROVIDER'',
                averageRating = 47 / 10, reviewCount = 3\<rparr>]"
    by (simp add: db_reviews3_eval db_reviews_def)
  let ?u3 = "\<lparr>u_id = 1, u_name = ''Provider X'', u_role = ''PROVIDER'',
               averageRating = 47 / 10, reviewCount = 3\<rparr>"
  let ?u4 = "\<lparr>u_id = 1, u_name = ''Provider X'', u_role = ''PROVIDER'',
               averageRating = 43 / 10, reviewCount = 4\<rparr>"
  have a23': "Application_findById (b_applicationId ?b) db_reviews
              = Some \<lparr>a_id = 23, a_postId = 13, a_providerId = 1,
                      a_message = ''I tune databases every day'', a_status = ACCEPTED\<rparr>"
    using a23 by simp
  note del = rating_aggregate [of "Some seeker_S" 40 db_reviews4 ?b True, THEN conjunct1,
      rule_format, OF conjI [OF d rv], of ?u3]
  have w1: "rating_projection [5, 5, 4] ?u3"
    using del r3 u3 by (simp add: db_reviews3_def [symmetric])
  note cre = rating_aggregate [of "Some seeker_S" 0 db_reviews ?b True, THEN conjunct2,
      THEN conjunct1, rule_format, OF conjI [OF c a23'], of ?u4]
  have w2: "rating_projection [5, 5, 4, 3] ?u4"
    using cre r4 db_reviews4_eval(2) by (simp add: db_reviews4_def [symmetric])
  show ?thesis
    using d c w1 w2 by simp
qed

subsection \<open>What a request does to posts and applications\<close>

lemma posts_exist_iff: "posts_exist s \<longleftrightarrow> a_postId ` set (applications s) \<subseteq> p_id ` set (posts s)"
  by (auto simp: posts_exist_def list_all_iff ServicePost_findById_None)

lemma effect_posts_exist:
  assumes "effect s s'" and "posts_exist s"
  shows "posts_exist s'"
proof -
  have key: "a_postId (g a) = a_postId a" if "\<forall>a. app_key (g a) = app_key a" for g a
    using that [rule_format, of a] by (simp add: app_key_def)
  have ids: "p_id ` f ` set ps = p_id ` set ps" if "\<forall>p. p_id (f p) = p_id p"
    for f and ps :: "post list"
    using that by (auto simp: image_iff)
  show ?thesis
    using assms unfolding effect_def posts_exist_iff
  proof (elim disjE exE conjE)
    fix f g
    assume h: "posts s' = map f (posts s)" "\<forall>p. p_id (f p) = p_id p"
      "applications s' = map g (applications s)" "\<forall>a. app_key (g a) = app_key a"
      and inv: "a_postId ` set (applications s) \<subseteq> p_id ` set (posts s)"
    have "a_postId ` set (applications s') = a_postId ` set (applications s)"
      using h(3) key [OF h(4)] by (auto simp: image_iff)
    moreover have "p_id ` set (posts s') = p_id ` set (posts s)"
      using h(1) ids [OF h(2)] by simp
    ultimately show "a_postId ` set (applications s') \<subseteq> p_id ` set (posts s')"
      using inv by simp
  qed auto
qed

lemma effect_unique_pairs:
  assumes "effect s s'" and "unique_pairs s"
  shows "unique_pairs s'"
  using assms unfolding effect_def unique_pairs_def
proof (elim disjE exE conjE)
  fix f g
  assume h: "applications s' = map g (applications s)" "\<forall>a. app_key (g a) = app_key a"
    and inv: "distinct (map app_key (applications s))"
  have "map app_key (applications s') = map app_key (applications s)"
    using h by simp
  then show "distinct (map app_key (applications s'))"
    using inv by simp
qed (auto simp: distinct_map_filter)

lemma effect_same: "posts s' = posts s \<Longrightarrow> applications s' = applications s \<Longrightarrow> effect s s'"
  by (simp add: effect_def)

lemma effect_refl [simp]: "effect s s"
  by (simp add: effect_def)

lemma POST_register_effect: "effect s (snd (POST_register name r s))"
  by (auto simp: POST_register_def User_create_def Let_def intro!: effect_same
        split: sum.splits if_splits)

lemma POST_posts_effect: "effect s (snd (POST_posts sess title s))"
proof -
  have "effect s s1" if "ServicePost_create uid title s = Inr (p, s1)" for uid p s1
    using that unfolding effect_def
    by (auto simp: ServicePost_create_def Let_def split: if_splits)
  then show ?thesis
    by (auto simp: POST_posts_def split: option.splits sum.splits)
qed

lemma PATCH_post_effect: "effect s (snd (PATCH_post sess i body s))"
proof -
  have "effect s (ServicePost_findByIdAndUpdate i pst t s)" for pst t
    unfolding effect_def
    by (rule disjI2, rule disjI2, rule disjI1,
        rule exI [of _ "\<lambda>p. if p_id p = i
              then p\<lparr>p_status := (case pst of None \<Rightarrow> p_status p | Some v \<Rightarrow> v),
                     p_title := (case t of None \<Rightarrow> p_title p | Some x \<Rightarrow> x)\<rparr>
              else p"],
        rule exI [of _ "\<lambda>a. a"])
       (simp add: ServicePost_findByIdAndUpdate_def)
  then show ?thesis
    by (simp add: PATCH_post_def Let_def split: option.splits)
qed

lemma DELETE_post_effect: "effect s (snd (DELETE_post sess i s))"
proof -
  have "effect s (ServicePost_findByIdAndDelete i (Application_deleteMany i s))"
    unfolding effect_def
    by (rule disjI2, rule disjI2, rule disjI2, rule disjI1, rule exI [of _ i])
       (simp add: ServicePost_findByIdAndDelete_def Application_deleteMany_def)
  then show ?thesis
    by (simp add: DELETE_post_def split: option.splits)
qed

lemma Application_create_effect:
  assumes "Application_create pid prov msg s = Inr (a, s1)"
  shows "posts s1 = posts s" "applications s1 = applications s @ [a]"
    "a_postId a = pid" "a_providerId a = prov" "a_status a = PENDING" "a_id a = next_oid s"
    "app_key a \<notin> app_key ` set (applications s)"
    "reviews s1 = reviews s" "users s1 = users s" "notifications s1 = notifications s"
  using assms
  by (auto simp: Application_create_def Let_def app_key_def list_ex_iff split: if_splits)

lemma POST_applications_effect: "effect s (snd (POST_applications sess b ok s))"
proof -
  have "effect s (createNotification ok n s1)"
    if "Application_create (b_postId b) prov (b_message b) s = Inr (a, s1)"
      "ServicePost_findById (b_postId b) s = Some p" for prov a s1 n p
  proof -
    have "b_postId b \<in> p_id ` set (posts s)"
      using that(2) ServicePost_findById_None [of "b_postId b" s] by auto
    then show ?thesis
      using Application_create_effect [OF that(1)] unfolding effect_def by auto
  qed
  then show ?thesis
    by (auto simp: POST_applications_def POST_applications_race_def
          split: option.splits sum.splits mongo_error.splits)
qed

lemma PATCH_application_effect: "effect s (snd (PATCH_application sess i v ok s))"
proof (cases "status (fst (PATCH_application sess i v ok s)) = 200")
  case False
  then show ?thesis
    using PATCH_application_failure [of sess i v ok s] by simp
next
  case True
  from PATCH_application_success [OF True]
  obtain a :: application and st where h:
    "applications (snd (PATCH_application sess i v ok s))
       = map (\<lambda>a. if a_id a = i then a\<lparr>a_status := st\<rparr> else a) (applications s)"
    "posts (snd (PATCH_application sess i v ok s))
       = (if st = ACCEPTED
          then map (\<lambda>q. if p_id q = a_postId a then q\<lparr>p_status := CLOSED\<rparr> else q) (posts s)
          else posts s)"
    by blast
  show ?thesis
    unfolding effect_def
    by (rule disjI2, rule disjI2, rule disjI1,
        rule exI [of _ "\<lambda>q. if st = ACCEPTED \<and> p_id q = a_postId a
                              then q\<lparr>p_status := CLOSED\<rparr> else q"],
        rule exI [of _ "\<lambda>a. if a_id a = i then a\<lparr>a_status := st\<rparr> else a"])
       (simp add: h app_key_def)
qed

lemma DELETE_application_effect: "effect s (snd (DELETE_application sess i s))"
proof -
  have "effect s (Application_findByIdAndDelete i s)"
    unfolding effect_def
    by (rule disjI2, rule disjI2, rule disjI2, rule disjI2, rule disjI1,
        rule exI [of _ "\<lambda>a. a_id a \<noteq> i"])
       (simp add: Application_findByIdAndDelete_def)
  then show ?thesis
    by (simp add: DELETE_application_def split: option.splits)
qed

lemma POST_reviews_frame:
  "posts (snd (POST_reviews_race env sess b ok s)) = posts s
     \<or> posts (snd (POST_reviews_race env sess b ok s)) = posts (env s)"
  "applications (snd (POST_reviews_race env sess b ok s)) = applications s
     \<or> applications (snd (POST_reviews_race env sess b ok s)) = applications (env s)"
  by (auto simp: POST_reviews_race_def Review_create_def Let_def users_User_findByIdAndUpdate
        split: option.splits sum.splits mongo_error.splits if_splits)

lemma POST_reviews_effect: "effect s (snd (POST_reviews sess b ok s))"
  using POST_reviews_frame [of "\<lambda>s. s" sess b ok s]
  by (auto simp: POST_reviews_def intro: effect_same)

lemma DELETE_review_effect: "effect s (snd (DELETE_review sess i s))"
  by (auto simp: DELETE_review_def Let_def users_User_findByIdAndUpdate
        Review_findByIdAndDelete_def intro!: effect_same split: option.splits)

lemma exec_effect: "effect s (snd (exec q s))"
  by (cases q)
     (simp_all add: POST_register_effect POST_posts_effect PATCH_post_effect DELETE_post_effect
        POST_applications_effect PATCH_application_effect DELETE_application_effect
        POST_reviews_effect DELETE_review_effect)

lemma run_invariants:
  assumes "posts_exist s" and "unique_pairs s"
  shows "posts_exist (run qs s) \<and> unique_pairs (run qs s)"
  using assms
proof (induction qs arbitrary: s)
  case Nil
  then show ?case by simp
next
  case (Cons q qs)
  have "posts_exist (snd (exec q s))" "unique_pairs (snd (exec q s))"
    using effect_posts_exist [OF exec_effect Cons.prems(1)]
      effect_unique_pairs [OF exec_effect Cons.prems(2)]
    by simp_all
  then show ?case
    using Cons.IH by simp
qed

lemma empty_db_invariants: "posts_exist empty_db" "unique_pairs empty_db"
  by (simp_all add: posts_exist_def unique_pairs_def empty_db_def)

subsection \<open>The scenario, evaluated\<close>

lemma run_scenario:
  "posts (run scenario empty_db)
     = [\<lparr>p_id = 2, p_userId = 0, p_title = ''Build a site'', p_status = CLOSED\<rparr>]"
  "applications (run scenario empty_db)
     = [\<lparr>a_id = 3, a_postId = 2, a_providerId = 1,
         a_message = ''I have 5 years experience in this field'', a_status = ACCEPTED\<rparr>]"
  "reviews (run scenario empty_db)
     = [\<lparr>r_id = 4, r_seekerId = 0, r_providerId = 1, r_applicationId = 3, r_rating = 5,
         r_comment = Some ''Great work''\<rparr>]"
  "users (run scenario empty_db)
     = [\<lparr>u_id = 0, u_name = ''Seeker S'', u_role = ''SEEKER'', averageRating = 0,
         reviewCount = 0\<rparr>,
        \<lparr>u_id = 1, u_name = ''Provider B'', u_role = ''PROVIDER'', averageRating = 5,
         reviewCount = 1\<rparr>]"
  by (simp_all add: scenario_def empty_db_def handler_defs eval_defs floor_eq_iff)

lemma db_orphan_eval:
  "posts db_orphan = []" "applications db_orphan = []"
  "reviews db_orphan = reviews (run scenario empty_db)"
  "users db_orphan = users (run scenario empty_db)"
  by (simp_all add: db_orphan_def scenario_def empty_db_def handler_defs eval_defs floor_eq_iff)

lemma db_applied_eval:
  "status (fst (POST_applications (Some provider_C)
      \<lparr>b_postId = 2, b_message = ''I can start on Monday''\<rparr> True db_market)) = 201"
  "map app_key (applications db_applied) = [(2, 1), (6, 1), (6, 5), (2, 5)]"
  "map app_key (applications db_market) = [(2, 1), (6, 1), (6, 5)]"
  by (simp_all add: db_applied_def db_market_def handler_defs eval_defs app_key_def)

subsection \<open>One application per post and provider\<close>

lemma POST_applications_201:
  assumes "status (fst (POST_applications sess b ok s)) = 201"
  shows "\<exists>se p a. sess = Some se \<and> role se = ''PROVIDER''
           \<and> ServicePost_findById (b_postId b) s = Some p \<and> p_status p = OPEN
           \<and> p_userId p \<noteq> userId se
           \<and> posts (snd (POST_applications sess b ok s)) = posts s
           \<and> applications (snd (POST_applications sess b ok s)) = applications s @ [a]
           \<and> a_postId a = b_postId b \<and> a_providerId a = userId se"
proof (cases sess)
  case None
  then show ?thesis
    using assms by (simp add: POST_applications_def POST_applications_race_def)
next
  case (Some se)
  have v: "role se = ''PROVIDER''" "\<not> length (b_message b) < 10" "\<not> 1000 < length (b_message b)"
    using assms Some
    by (auto simp: POST_applications_def POST_applications_race_def split: if_splits)
  show ?thesis
  proof (cases "ServicePost_findById (b_postId b) s")
    case None
    then show ?thesis
      using assms Some v by (simp add: POST_applications_def POST_applications_race_def)
  next
    case p: (Some p)
    have g: "p_status p = OPEN" "p_userId p \<noteq> userId se"
      "Application_findOne (b_postId b) (userId se) s = None"
      using assms Some v p
      by (auto simp: POST_applications_def POST_applications_race_def split: if_splits)
    show ?thesis
    proof (cases "Application_create (b_postId b) (userId se) (b_message b) s")
      case (Inl e)
      then show ?thesis
        using assms Some v p g
        by (cases e) (simp_all add: POST_applications_def POST_applications_race_def)
    next
      case (Inr r)
      obtain a s1 where r: "r = (a, s1)"
        by (cases r)
      have "snd (POST_applications sess b ok s)
              = createNotification ok
                  \<lparr>n_userId = p_userId p, n_type = NEW_APPLICATION,
                   n_title = ''New Application Received'',
                   n_message = ''A provider applied to your post '' @ quoted (p_title p),
                   n_link = ''/dashboard/seeker'', n_read = False\<rparr> s1"
        using Some v p g Inr r by (simp add: POST_applications_def POST_applications_race_def)
      then show ?thesis
        using Some v p g Application_create_effect [OF Inr [unfolded r]] by simp
    qed
  qed
qed

lemma Application_create_duplicate:
  assumes "Application_findOne pid prov s = Some a"
  shows "Application_create pid prov msg s = Inl DuplicateKey
           \<or> Application_create pid prov msg s = Inl ValidationError"
proof -
  have "list_ex (\<lambda>a. a_postId a = pid \<and> a_providerId a = prov) (applications s)"
    using assms find_None_list_ex [of "\<lambda>a. a_postId a = pid \<and> a_providerId a = prov" "applications s"]
    by (simp add: Application_findOne_def)
  then show ?thesis
    by (simp add: Application_create_def Let_def)
qed

lemma POST_applications_race_states:
  "snd (POST_applications_race env sess b ok s) = s
   \<or> snd (POST_applications_race env sess b ok s) = env s
   \<or> (\<exists>se a s1 n. sess = Some se
         \<and> Application_create (b_postId b) (userId se) (b_message b) (env s) = Inr (a, s1)
         \<and> snd (POST_applications_race env sess b ok s) = createNotification ok n s1
         \<and> status (fst (POST_applications_race env sess b ok s)) = 201)"
  by (auto simp: POST_applications_race_def split: option.splits sum.splits mongo_error.splits)

lemma POST_applications_race_status:
  assumes "status (fst (POST_applications_race env sess b ok s)) = 201"
  shows "\<exists>se a s1. sess = Some se
           \<and> Application_create (b_postId b) (userId se) (b_message b) (env s) = Inr (a, s1)"
  using assms
  by (auto simp: POST_applications_race_def
        split: option.splits sum.splits mongo_error.splits if_splits)

text \<open>
  C2, as the handlers have it. Right after an apply by P to J has succeeded, every further
  apply by P to J with a well-formed message is answered 409 and leaves the database as it
  is; the same holds in every later state in which the application still exists and J is
  still \<^verbatim>\<open>OPEN\<close>. When the application for (J, P) appears only between the handler's
  look-up and its insert, the unique index raises the duplicate-key error, and the handler
  answers with the same 409 response and writes nothing. Whenever an application for
  (J, P) is in the database at the insert, no application is created, whatever the
  answer is. The insert keeps the keys (post, provider) distinct whatever happened in
  between, and they are distinct in every database that a run of requests reaches from
  the empty one.
\<close>

theorem one_application_per_pair:
  "(\<forall>r s'. POST_applications (Some se) b ok s = (r, s') \<and> status r = 201 \<longrightarrow>
      (\<forall>m ok'. 10 \<le> length m \<and> length m \<le> 1000 \<longrightarrow>
         POST_applications (Some se) (b\<lparr>b_message := m\<rparr>) ok' s'
           = (json 409 (Error ''You have already applied to this post''), s')))
   \<and> (\<forall>p a. role se = ''PROVIDER'' \<and> 10 \<le> length (b_message b)
          \<and> length (b_message b) \<le> 1000
          \<and> ServicePost_findById (b_postId b) s = Some p \<and> p_status p = OPEN
          \<and> p_userId p \<noteq> userId se
          \<and> Application_findOne (b_postId b) (userId se) s = Some a \<longrightarrow>
        POST_applications (Some se) b ok s
          = (json 409 (Error ''You have already applied to this post''), s))
   \<and> (\<forall>env p a. role se = ''PROVIDER'' \<and> 10 \<le> length (trim (b_message b))
          \<and> length (b_message b) \<le> 1000
          \<and> ServicePost_findById (b_postId b) s = Some p \<and> p_status p = OPEN
          \<and> p_userId p \<noteq> userId se
          \<and> Application_findOne (b_postId b) (userId se) s = None
          \<and> Application_findOne (b_postId b) (userId se) (env s) = Some a \<longrightarrow>
        POST_applications_race env (Some se) b ok s
          = (json 409 (Error ''You have already applied to this post''), env s))
   \<and> (\<forall>env a. Application_findOne (b_postId b) (userId se) (env s) = Some a \<longrightarrow>
        status (fst (POST_applications_race env (Some se) b ok s)) \<noteq> 201
        \<and> (snd (POST_applications_race env (Some se) b ok s) = s
           \<or> snd (POST_applications_race env (Some se) b ok s) = env s))
   \<and> (\<forall>env. unique_pairs s \<and> unique_pairs (env s) \<longrightarrow>
        unique_pairs (snd (POST_applications_race env (Some se) b ok s)))
   \<and> unique_pairs (run qs empty_db)"
proof (intro conjI allI impI)
  fix r s' ok' and m :: string
  assume first: "POST_applications (Some se) b ok s = (r, s') \<and> status r = 201"
    and m: "10 \<le> length m \<and> length m \<le> 1000"
  have "status (fst (POST_applications (Some se) b ok s)) = 201"
    and s': "snd (POST_applications (Some se) b ok s) = s'"
    using first by simp_all
  from POST_applications_201 [OF this(1)] s'
  obtain p a where h: "role se = ''PROVIDER''" "ServicePost_findById (b_postId b) s = Some p"
    "p_status p = OPEN" "p_userId p \<noteq> userId se" "posts s' = posts s"
    "applications s' = applications s @ [a]" "a_postId a = b_postId b" "a_providerId a = userId se"
    by auto
  have post: "ServicePost_findById (b_postId b) s' = Some p"
    using h(2,5) by (simp add: ServicePost_findById_def)
  have dup: "Application_findOne (b_postId b) (userId se) s' \<noteq> None"
    unfolding Application_findOne_def h(6)
    by (rule find_append_new) (simp add: h(7,8))
  show "POST_applications (Some se) (b\<lparr>b_message := m\<rparr>) ok' s'
          = (json 409 (Error ''You have already applied to this post''), s')"
    using h(1,3,4) m post dup
    by (simp add: POST_applications_def POST_applications_race_def)
next
  fix p a
  assume "role se = ''PROVIDER'' \<and> 10 \<le> length (b_message b)
          \<and> length (b_message b) \<le> 1000
          \<and> ServicePost_findById (b_postId b) s = Some p \<and> p_status p = OPEN
          \<and> p_userId p \<noteq> userId se
          \<and> Application_findOne (b_postId b) (userId se) s = Some a"
  then show "POST_applications (Some se) b ok s
          = (json 409 (Error ''You have already applied to this post''), s)"
    by (simp add: POST_applications_def POST_applications_race_def)
next
  fix env p a
  assume h: "role se = ''PROVIDER'' \<and> 10 \<le> length (trim (b_message b))
          \<and> length (b_message b) \<le> 1000
          \<and> ServicePost_findById (b_postId b) s = Some p \<and> p_status p = OPEN
          \<and> p_userId p \<noteq> userId se
          \<and> Application_findOne (b_postId b) (userId se) s = None
          \<and> Application_findOne (b_postId b) (userId se) (env s) = Some a"
  have len: "10 \<le> length (b_message b)" "length (trim (b_message b)) \<le> 1000"
    using h length_trim_le [of "b_message b"] by linarith+
  have "list_ex (\<lambda>a. a_postId a = b_postId b \<and> a_providerId a = userId se) (applications (env s))"
    using h find_None_list_ex [of "\<lambda>a. a_postId a = b_postId b \<and> a_providerId a = userId se"
        "applications (env s)"]
    by (simp add: Application_findOne_def)
  then have "Application_create (b_postId b) (userId se) (b_message b) (env s) = Inl DuplicateKey"
    using h len by (simp add: Application_create_def Let_def)
  then show "POST_applications_race env (Some se) b ok s
          = (json 409 (Error ''You have already applied to this post''), env s)"
    using h len by (simp add: POST_applications_race_def)
next
  fix env a
  assume h: "Application_findOne (b_postId b) (userId se) (env s) = Some a"
  show "status (fst (POST_applications_race env (Some se) b ok s)) \<noteq> 201"
    using POST_applications_race_status [of env "Some se" b ok s]
      Application_create_duplicate [OF h, of "b_message b"]
    by auto
  then show "snd (POST_applications_race env (Some se) b ok s) = s
           \<or> snd (POST_applications_race env (Some se) b ok s) = env s"
    using POST_applications_race_states [of env "Some se" b ok s] by auto
next
  fix env
  assume inv: "unique_pairs s \<and> unique_pairs (env s)"
  consider "snd (POST_applications_race env (Some se) b ok s) = s"
    | "snd (POST_applications_race env (Some se) b ok s) = env s"
    | a s1 n where "Application_create (b_postId b) (userId se) (b_message b) (env s) = Inr (a, s1)"
        "snd (POST_applications_race env (Some se) b ok s) = createNotification ok n s1"
    using POST_applications_race_states [of env "Some se" b ok s] by auto
  then show "unique_pairs (snd (POST_applications_race env (Some se) b ok s))"
  proof cases
    case 1
    then show ?thesis using inv by simp
  next
    case 2
    then show ?thesis using inv by simp
  next
    case 3
    have "distinct (map app_key (applications (env s) @ [a]))"
      using inv Application_create_effect(7) [OF 3(1)] by (simp add: unique_pairs_def)
    then show ?thesis
      using 3(2) Application_create_effect(2) [OF 3(1)] by (simp add: unique_pairs_def)
  qed
next
  show "unique_pairs (run qs empty_db)"
    using run_invariants [OF empty_db_invariants] by simp
qed

theorem one_application_per_pair_witness:
  "status (fst (POST_applications (Some provider_C)
      \<lparr>b_postId = 2, b_message = ''I can start on Monday''\<rparr> True db_market)) = 201
   \<and> POST_applications (Some provider_C)
        \<lparr>b_postId = 2, b_message = ''Please consider me again''\<rparr> False db_applied
       = (json 409 (Error ''You have already applied to this post''), db_applied)
   \<and> POST_applications_race (\<lambda>s. db_applied) (Some provider_C)
        \<lparr>b_postId = 2, b_message = ''I can start on Monday''\<rparr> True db_market
       = (json 409 (Error ''You have already applied to this post''), db_applied)
   \<and> POST_applications (Some provider_B)
        \<lparr>b_postId = 2, b_message = ''I can start on Monday''\<rparr> True db_market
       = (json 409 (Error ''You have already applied to this post''), db_market)
   \<and> map app_key (applications db_applied) = [(2, 1), (6, 1), (6, 5), (2, 5)]
   \<and> unique_pairs (run scenario empty_db)"
proof -
  let ?b = "\<lparr>b_postId = 2, b_message = ''I can start on Monday''\<rparr>"
  note inst = one_application_per_pair [of provider_C ?b True db_market scenario]
  have first: "POST_applications (Some provider_C) ?b True db_market
                 = (fst (POST_applications (Some provider_C) ?b True db_market), db_applied)
               \<and> status (fst (POST_applications (Some provider_C) ?b True db_market)) = 201"
    using db_applied_eval(1) by (simp add: db_applied_def)
  have m: "10 \<le> length ''Please consider me again'' \<and> length ''Please consider me again'' \<le> 1000"
    by simp
  have w1: "POST_applications (Some provider_C)
              \<lparr>b_postId = 2, b_message = ''Please consider me again''\<rparr> False db_applied
            = (json 409 (Error ''You have already applied to this post''), db_applied)"
    using inst [THEN conjunct1, rule_format, OF first m, of False] by simp
  have pre: "role provider_C = ''PROVIDER'' \<and> 10 \<le> length (trim (b_message ?b))
          \<and> length (b_message ?b) \<le> 1000
          \<and> ServicePost_findById (b_postId ?b) db_market
              = Some \<lparr>p_id = 2, p_userId = 0, p_title = ''Build a site'', p_status = OPEN\<rparr>
          \<and> p_status \<lparr>p_id = 2, p_userId = 0, p_title = ''Build a site'', p_status = OPEN\<rparr> = OPEN
          \<and> p_userId \<lparr>p_id = 2, p_userId = 0, p_title = ''Build a site'', p_status = OPEN\<rparr>
              \<noteq> userId provider_C
          \<and> Application_findOne (b_postId ?b) (userId provider_C) db_market = None
          \<and> Application_findOne (b_postId ?b) (userId provider_C) db_applied
              = Some \<lparr>a_id = 9, a_postId = 2, a_providerId = 5,
                      a_message = ''I can start on Monday'', a_status = PENDING\<rparr>"
    by (simp add: db_applied_def db_market_def handler_defs eval_defs)
  have w2: "POST_applications_race (\<lambda>s. db_applied) (Some provider_C) ?b True db_market
            = (json 409 (Error ''You have already applied to this post''), db_applied)"
    using inst [THEN conjunct2, THEN conjunct2, THEN conjunct1, rule_format,
        where env = "\<lambda>s. db_applied", OF pre]
    by simp
  have w3: "unique_pairs (run scenario empty_db)"
    using inst by simp
  have preB: "role provider_B = ''PROVIDER'' \<and> 10 \<le> length (b_message ?b)
          \<and> length (b_message ?b) \<le> 1000
          \<and> ServicePost_findById (b_postId ?b) db_market
              = Some \<lparr>p_id = 2, p_userId = 0, p_title = ''Build a site'', p_status = OPEN\<rparr>
          \<and> p_status \<lparr>p_id = 2, p_userId = 0, p_title = ''Build a site'', p_status = OPEN\<rparr> = OPEN
          \<and> p_userId \<lparr>p_id = 2, p_userId = 0, p_title = ''Build a site'', p_status = OPEN\<rparr>
              \<noteq> userId provider_B
          \<and> Application_findOne (b_postId ?b) (userId provider_B) db_market
              = Some \<lparr>a_id = 3, a_postId = 2, a_providerId = 1,
                      a_message = ''I have 5 years experience in this field'',
                      a_status = PENDING\<rparr>"
    by (simp add: db_market_def eval_defs)
  have w4: "POST_applications (Some provider_B) ?b True db_market
            = (json 409 (Error ''You have already applied to this post''), db_market)"
    using one_application_per_pair [of provider_B ?b True db_market scenario, THEN conjunct2,
        THEN conjunct1, rule_format, OF preB]
    by simp
  show ?thesis
    using db_applied_eval(1,2) w1 w2 w3 w4 by simp
qed

text \<open>
  Where the handlers differ from the specification's wording. B's first apply to the post
  succeeds. Once S has accepted it the post is closed, and B's second apply is answered
  400, not 409. Once B has withdrawn it instead, B's second apply succeeds and creates an
  application again, the only one for the pair.
\<close>

theorem second_apply_counterexample:
  "status (fst (POST_applications (Some provider_B) apply_B True (run scenario_posted empty_db)))
     = 201
   \<and> fst (POST_applications (Some provider_B) apply_B True
          (run (scenario_posted @ [Apply (Some provider_B) apply_B True,
                                   UpdateStatus (Some seeker_S) 3 ''ACCEPTED'' True]) empty_db))
       = json 400 (Error ''This post is no longer accepting applications'')
   \<and> status (fst (POST_applications (Some provider_B) apply_B True
          (run (scenario_posted @ [Apply (Some provider_B) apply_B True,
                                   Withdraw (Some provider_B) 3]) empty_db)))
       = 201
   \<and> map a_id (applications (run (scenario_posted @
          [Apply (Some provider_B) apply_B True, Withdraw (Some provider_B) 3,
           Apply (Some provider_B) apply_B True]) empty_db))
       = [4]"
  by (simp add: scenario_posted_def apply_B_def empty_db_def handler_defs eval_defs)

subsection \<open>Deleting a post\<close>

text \<open>
  C8. For the owner of an existing post the delete always succeeds, whatever the
  applications on the post are: all applications that name the post are removed, then the
  post. In every database that a run of requests reaches from the empty one, every
  application names a post that exists.
\<close>

theorem post_delete_cascades:
  "(\<forall>se p. sess = Some se \<and> role se = ''SEEKER'' \<and> ServicePost_findById i s = Some p
        \<and> p_userId p = userId se \<longrightarrow>
      fst (DELETE_post sess i s) = json 200 (Message ''Post deleted successfully'')
      \<and> applications (snd (DELETE_post sess i s)) = filter (\<lambda>a. a_postId a \<noteq> i) (applications s)
      \<and> posts (snd (DELETE_post sess i s)) = filter (\<lambda>p. p_id p \<noteq> i) (posts s)
      \<and> ServicePost_findById i (snd (DELETE_post sess i s)) = None)
   \<and> (\<forall>a \<in> set (applications (run qs empty_db)).
        ServicePost_findById (a_postId a) (run qs empty_db) \<noteq> None)"
proof -
  have del: "fst (DELETE_post sess i s) = json 200 (Message ''Post deleted successfully'')
      \<and> applications (snd (DELETE_post sess i s)) = filter (\<lambda>a. a_postId a \<noteq> i) (applications s)
      \<and> posts (snd (DELETE_post sess i s)) = filter (\<lambda>p. p_id p \<noteq> i) (posts s)
      \<and> ServicePost_findById i (snd (DELETE_post sess i s)) = None"
    if "sess = Some se \<and> role se = ''SEEKER'' \<and> ServicePost_findById i s = Some p
        \<and> p_userId p = userId se" for se p
    using that find_filter_None [of "\<lambda>p. p_id p = i" "posts s"]
    by (simp add: DELETE_post_def ServicePost_findByIdAndDelete_def Application_deleteMany_def
          ServicePost_findById_def)
  have "posts_exist (run qs empty_db)"
    using run_invariants [OF empty_db_invariants] by simp
  then have inv: "\<forall>a \<in> set (applications (run qs empty_db)).
        ServicePost_findById (a_postId a) (run qs empty_db) \<noteq> None"
    by (simp add: posts_exist_def list_all_iff)
  show ?thesis
    using del inv by blast
qed

theorem post_delete_cascades_witness:
  "fst (DELETE_post (Some seeker_S) 6 db_market) = json 200 (Message ''Post deleted successfully'')
   \<and> map a_id (applications (snd (DELETE_post (Some seeker_S) 6 db_market))) = [3]
   \<and> map p_id (posts (snd (DELETE_post (Some seeker_S) 6 db_market))) = [2]
   \<and> map a_postId (applications (run scenario empty_db)) = [2]
   \<and> ServicePost_findById 2 (run scenario empty_db) \<noteq> None"
proof -
  let ?p = "\<lparr>p_id = 6, p_userId = 0, p_title = ''Design a logo'', p_status = CLOSED\<rparr>"
  let ?a = "\<lparr>a_id = 3, a_postId = 2, a_providerId = 1,
             a_message = ''I have 5 years experience in this field'', a_status = ACCEPTED\<rparr>"
  note inst = post_delete_cascades [of "Some seeker_S" 6 db_market scenario]
  have pre: "Some seeker_S = Some seeker_S \<and> role seeker_S = ''SEEKER''
        \<and> ServicePost_findById 6 db_market = Some ?p \<and> p_userId ?p = userId seeker_S"
    by (simp add: seeker_S_def ServicePost_findById_def db_market_def)
  note d = inst [THEN conjunct1, rule_format, OF pre]
  have w1: "fst (DELETE_post (Some seeker_S) 6 db_market)
              = json 200 (Message ''Post deleted successfully'')"
    using d by simp
  have w2: "map a_id (applications (snd (DELETE_post (Some seeker_S) 6 db_market))) = [3]"
    "map p_id (posts (snd (DELETE_post (Some seeker_S) 6 db_market))) = [2]"
    using d by (simp_all add: db_market_def)
  have "?a \<in> set (applications (run scenario empty_db))"
    by (simp add: run_scenario)
  from inst [THEN conjunct2, rule_format, OF this]
  have w3: "ServicePost_findById 2 (run scenario empty_db) \<noteq> None"
    by simp
  show ?thesis
    using w1 w2 w3 by (simp add: run_scenario)
qed

text \<open>
  C10. Deleting a post never changes the reviews or the users, whatever its outcome.
  After the scenario and the deletion of its post, the review still names application 3,
  which no longer exists, and still counts for provider B: rating 5, count 1.
\<close>

theorem post_delete_keeps_reviews:
  "reviews (snd (DELETE_post sess i s)) = reviews s
   \<and> users (snd (DELETE_post sess i s)) = users s
   \<and> map r_applicationId (reviews db_orphan) = [3]
   \<and> Application_findById 3 db_orphan = None
   \<and> ratings_of 1 db_orphan = [5]
   \<and> stored_rating 1 db_orphan = [(5, 1)]"
proof -
  have "reviews (snd (DELETE_post sess i s)) = reviews s
          \<and> users (snd (DELETE_post sess i s)) = users s"
    by (simp add: DELETE_post_def ServicePost_findByIdAndDelete_def Application_deleteMany_def
          split: option.splits)
  moreover have "map r_applicationId (reviews db_orphan) = [3]
      \<and> Application_findById 3 db_orphan = None
      \<and> ratings_of 1 db_orphan = [5] \<and> stored_rating 1 db_orphan = [(5, 1)]"
    by (simp add: db_orphan_eval run_scenario Application_findById_def ratings_of_def
          stored_rating_def)
  ultimately show ?thesis
    by simp
qed

theorem post_delete_keeps_reviews_witness:
  "map r_id (reviews (snd (DELETE_post (Some seeker_S) 2 (run scenario empty_db)))) = [4]
   \<and> stored_rating 1 (snd (DELETE_post (Some seeker_S) 2 (run scenario empty_db))) = [(5, 1)]
   \<and> applications (snd (DELETE_post (Some seeker_S) 2 (run scenario empty_db))) = []"
proof -
  have "applications (snd (DELETE_post (Some seeker_S) 2 (run scenario empty_db))) = []"
    by (simp add: DELETE_post_def ServicePost_findByIdAndDelete_def Application_deleteMany_def
          ServicePost_findById_def run_scenario seeker_S_def)
  then show ?thesis
    using post_delete_keeps_reviews [of "Some seeker_S" 2 "run scenario empty_db"]
    by (simp add: run_scenario stored_rating_def)
qed

end
